theory Spec2Isabelle
  imports Complex_Main "HOL-Library.Word" "HOL-Library.Multiset"
begin

unbundle bit_operations_syntax

section \<open>Produce quality scoring (quality/services.py)\<close>

text \<open>
  The analysed program is the class \<open>YOLOQualityAnalyzer\<close>. Python floats are
  modelled as real numbers (no NaN, no infinities): the image statistics in exact
  arithmetic, the score aggregation both in exact arithmetic and with every operation
  rounded to the floating-point format. numpy \<open>uint8\<close> buffers are lists of 8-bit words,
  and Python dictionaries are maps from their string keys.
  What OpenCV computes from the decoded raster (colour conversions, filters, contours) is
  input data of the model; the arithmetic and the control flow of the Python code are
  translated line by line.
\<close>

subsection \<open>numpy and Python helpers\<close>

definition mean :: "real list \<Rightarrow> real" where
  \<comment> \<open>\<open>np.mean\<close> of a flat buffer\<close>
  "mean xs = sum_list xs / real (length xs)"

definition variance :: "real list \<Rightarrow> real" where
  \<comment> \<open>\<open>ndarray.var()\<close>: population variance\<close>
  "variance xs = mean (map (\<lambda>x. (x - mean xs)\<^sup>2) xs)"

definition std :: "real list \<Rightarrow> real" where
  \<comment> \<open>\<open>np.std\<close>\<close>
  "std xs = sqrt (variance xs)"

definition round_half_even :: "real \<Rightarrow> int" where
  "round_half_even x =
     (let f = \<lfloor>x\<rfloor>; d = x - of_int f
      in if d < 1 / 2 then f
         else if 1 / 2 < d then f + 1
         else if even f then f else f + 1)"

definition py_round :: "real \<Rightarrow> real" where
  \<comment> \<open>\<open>round(x, 2)\<close>: two decimals, ties to the even neighbour\<close>
  "py_round x = of_int (round_half_even (x * 100)) / 100"

subsection \<open>The decoded image\<close>

text \<open>
  \<open>cv2.imread\<close> yields a BGR raster. The model keeps, beside the raster, the buffers
  and contour measurements that the OpenCV calls of the analyser compute from it; each
  field names the call it stands for. Buffers are flattened row by row. A decoded image
  has at least one pixel; on an empty buffer numpy's mean is NaN, which the reals do not
  have, and the model's quotient by zero is 0.
\<close>

type_synonym u8 = "8 word"

type_synonym pixel = "u8 \<times> u8 \<times> u8"

datatype py_exn = PyExc (exc_class: string) (exc_msg: string)

record contour =
  contourArea :: real
  arcLength :: real
  boundingRect :: "int \<times> int \<times> int \<times> int"
  minEnclosingCircle :: "(real \<times> real) \<times> real"
  hullArea :: real
  m00 :: real
  m10 :: real
  m01 :: real

record image =
  bgr :: "pixel list"
  gray :: "u8 list"
  hsv :: "pixel list"
  lab :: "pixel list"
  laplacian :: "real list"
  blurred :: "u8 list"
  sobel_x :: "real list"
  sobel_y :: "real list"
  dilated_edges :: "u8 list"
  edge_contours :: "contour list"
  dark_contours :: "contour list"
  gabor_response :: "u8 list"
  kmeans :: "py_exn + (nat list \<times> (real \<times> real \<times> real) list)"

text \<open>
  \<open>gray\<close>, \<open>hsv\<close>, \<open>lab\<close>: \<open>cv2.cvtColor\<close> to GRAY, HSV, LAB;
  \<open>laplacian\<close>: \<open>cv2.Laplacian(gray, CV_64F)\<close>;
  \<open>blurred\<close>: \<open>cv2.GaussianBlur(gray, (5, 5), 0)\<close>;
  \<open>sobel_x\<close>, \<open>sobel_y\<close>: \<open>cv2.Sobel(gray, CV_64F, ..., ksize=3)\<close>;
  \<open>dilated_edges\<close>: \<open>cv2.dilate(cv2.Canny(gray, 50, 150), ones((10,10)), iterations=2)\<close>;
  \<open>edge_contours\<close>: \<open>cv2.findContours\<close> of the Canny edges, each contour with
  what \<open>contourArea\<close>, \<open>arcLength\<close>, \<open>boundingRect\<close>, \<open>minEnclosingCircle\<close>,
  \<open>contourArea(convexHull)\<close> and \<open>moments\<close> return for it;
  \<open>dark_contours\<close>: \<open>cv2.findContours\<close> of \<open>cv2.inRange(gray, 0, 60)\<close>;
  \<open>gabor_response\<close>: \<open>cv2.filter2D(gray, CV_8UC3, kernel)\<close>, an 8-bit buffer;
  \<open>kmeans\<close>: the labels and centres of \<open>cv2.kmeans\<close> with k = 3, or the exception it raises.
\<close>

definition u8r :: "u8 \<Rightarrow> real" where
  "u8r x = real (unat x)"

definition chan0 :: "pixel \<Rightarrow> u8" where "chan0 p = fst p"
definition chan1 :: "pixel \<Rightarrow> u8" where "chan1 p = fst (snd p)"
definition chan2 :: "pixel \<Rightarrow> u8" where "chan2 p = snd (snd p)"

definition calcHist :: "u8 list \<Rightarrow> nat \<Rightarrow> real list" where
  \<comment> \<open>\<open>cv2.calcHist([buf], [0], None, [bins], [0, bins])\<close>: one count per value below \<open>bins\<close>\<close>
  "calcHist buf bins = map (\<lambda>i. real (length (filter (\<lambda>x. unat x = i) buf))) [0..<bins]"

definition inRange :: "pixel \<Rightarrow> nat \<times> nat \<times> nat \<Rightarrow> nat \<times> nat \<times> nat \<Rightarrow> u8" where
  \<comment> \<open>\<open>cv2.inRange\<close> on one pixel: 255 inside the box, 0 outside\<close>
  "inRange p lower upper =
     (case (p, lower, upper) of ((a, b, c), (l0, l1, l2), (u0, u1, u2)) \<Rightarrow>
        if l0 \<le> unat a \<and> unat a \<le> u0 \<and> l1 \<le> unat b \<and> unat b \<le> u1
           \<and> l2 \<le> unat c \<and> unat c \<le> u2
        then 255 else 0)"

definition absdiff :: "u8 \<Rightarrow> u8 \<Rightarrow> u8" where
  \<comment> \<open>\<open>cv2.absdiff\<close> on one pair of 8-bit values\<close>
  "absdiff a b = (if a \<le> b then b - a else a - b)"

subsection \<open>Product standards\<close>

record standard =
  ideal_color_range :: "(nat \<times> nat \<times> nat) \<times> (nat \<times> nat \<times> nat)"
  size_range :: "real \<times> real"
  shape_circularity :: real
  defect_tolerance :: real

definition product_standards :: "(string \<times> standard) list" where
  "product_standards =
     [(''apple'', \<lparr>ideal_color_range = ((0, 100, 100), (10, 255, 255)),
         size_range = (5000, 50000), shape_circularity = 0.7, defect_tolerance = 0.1\<rparr>),
      (''tomato'', \<lparr>ideal_color_range = ((0, 100, 100), (15, 255, 255)),
         size_range = (3000, 30000), shape_circularity = 0.8, defect_tolerance = 0.05\<rparr>),
      (''banana'', \<lparr>ideal_color_range = ((20, 100, 100), (30, 255, 255)),
         size_range = (8000, 40000), shape_circularity = 0.3, defect_tolerance = 0.15\<rparr>),
      (''orange'', \<lparr>ideal_color_range = ((10, 100, 100), (25, 255, 255)),
         size_range = (4000, 35000), shape_circularity = 0.75, defect_tolerance = 0.1\<rparr>),
      (''cabbage'', \<lparr>ideal_color_range = ((50, 50, 50), (80, 255, 255)),
         size_range = (10000, 80000), shape_circularity = 0.6, defect_tolerance = 0.2\<rparr>),
      (''potato'', \<lparr>ideal_color_range = ((15, 30, 80), (25, 100, 200)),
         size_range = (2000, 25000), shape_circularity = 0.5, defect_tolerance = 0.3\<rparr>)]"

subsection \<open>Detections\<close>

record detection =
  det_class :: string
  confidence :: real
  bbox :: "real list"
  center :: "real list"

record box =
  conf :: real
  xyxy :: "real \<times> real \<times> real \<times> real"
  cls :: int

text \<open>
  \<open>self.model\<close> is either the string put there when ultralytics cannot be imported or
  loaded, or a YOLO model: a call that returns one optional list of boxes per result, or
  raises, and the dictionary \<open>names\<close> of class names.
\<close>

datatype yolo_model =
  Placeholder string
| Yolo "image \<Rightarrow> py_exn + box list option list" "int \<rightharpoonup> string"

record analyzer =
  model :: yolo_model
  confidence_threshold :: real

fun scan_boxes ::
  "(int \<rightharpoonup> string) \<Rightarrow> real \<Rightarrow> box list \<Rightarrow> detection list \<Rightarrow> detection list \<times> py_exn option" where
  "scan_boxes names threshold [] objects = (objects, None)"
| "scan_boxes names threshold (b # bs) objects =
     (if conf b \<ge> threshold then
        (case xyxy b of (x1, y1, x2, y2) \<Rightarrow>
           (case names (cls b) of
              None \<Rightarrow> (objects, Some (PyExc ''KeyError'' ''class_id''))
            | Some class_name \<Rightarrow>
                scan_boxes names threshold bs
                  (objects @ [\<lparr>det_class = class_name, confidence = conf b,
                               bbox = [x1, y1, x2, y2],
                               center = [(x1 + x2) / 2, (y1 + y2) / 2]\<rparr>])))
      else scan_boxes names threshold bs objects)"

fun scan_results ::
  "(int \<rightharpoonup> string) \<Rightarrow> real \<Rightarrow> box list option list \<Rightarrow> detection list
     \<Rightarrow> detection list \<times> py_exn option" where
  "scan_results names threshold [] objects = (objects, None)"
| "scan_results names threshold (result # rest) objects =
     (case result of
        None \<Rightarrow> scan_results names threshold rest objects
      | Some boxes \<Rightarrow>
          (case scan_boxes names threshold boxes objects of
             (objects', Some e) \<Rightarrow> (objects', Some e)
           | (objects', None) \<Rightarrow> scan_results names threshold rest objects'))"

definition placeholder_detection :: detection where
  "placeholder_detection =
     \<lparr>det_class = ''fruit'', confidence = 0.85, bbox = [100, 100, 200, 200], center = [150, 150]\<rparr>"

definition detect_objects :: "analyzer \<Rightarrow> image \<Rightarrow> detection list" where
  \<comment> \<open>the \<open>except\<close> clause logs the exception and falls through to \<open>return objects\<close>\<close>
  "detect_objects self img =
     (case model self of
        Placeholder s \<Rightarrow> [placeholder_detection]
      | Yolo run names \<Rightarrow>
          (case run img of
             Inl e \<Rightarrow> []
           | Inr results \<Rightarrow> fst (scan_results names (confidence_threshold self) results [])))"

subsection \<open>Image metric extractors\<close>

definition calculate_sharpness :: "image \<Rightarrow> real" where
  "calculate_sharpness img =
     (let laplacian_var = variance (laplacian img) in min 100 (laplacian_var / 10))"

definition calculate_brightness :: "image \<Rightarrow> real" where
  "calculate_brightness img = mean (map u8r (gray img))"

definition calculate_contrast :: "image \<Rightarrow> real" where
  "calculate_contrast img = std (map u8r (gray img))"

definition calculate_saturation :: "image \<Rightarrow> real" where
  "calculate_saturation img = mean (map (u8r \<circ> chan1) (hsv img))"

definition calculate_noise_level :: "image \<Rightarrow> real" where
  "calculate_noise_level img =
     (let noise = map2 absdiff (gray img) (blurred img) in mean (map u8r noise))"

definition analyze_focus_quality :: "image \<Rightarrow> real" where
  "analyze_focus_quality img =
     (let gradient_magnitude = map2 (\<lambda>gx gy. sqrt (gx\<^sup>2 + gy\<^sup>2)) (sobel_x img) (sobel_y img)
      in mean gradient_magnitude)"

definition analyze_lighting_quality :: "image \<Rightarrow> real" where
  "analyze_lighting_quality img =
     (let hist = calcHist (gray img) 256;
          non_zero_bins = length (filter (\<lambda>v. v \<noteq> 0) hist);
          distribution_score = real non_zero_bins / 256 * 100;
          overexposed = sum_list (drop 240 hist) / sum_list hist * 100;
          underexposed = sum_list (take 15 hist) / sum_list hist * 100;
          exposure_penalty = max overexposed underexposed
      in max 0 (distribution_score - exposure_penalty))"

definition analyze_background :: "image \<Rightarrow> real" where
  "analyze_background img =
     (let background_mask = map (\<lambda>m. NOT m) (dilated_edges img)
      in if sum_list (map unat background_mask) > 0 then
           (let background_pixels = map fst (filter (\<lambda>(p, m). m > 0) (zip (lab img) background_mask))
            in if length background_pixels > 100 then
                 (let std_dev = [std (map (u8r \<circ> chan0) background_pixels),
                                 std (map (u8r \<circ> chan1) background_pixels),
                                 std (map (u8r \<circ> chan2) background_pixels)];
                      uniformity = 100 - mean std_dev
                  in max 0 uniformity)
               else 50)
         else 50)"

subsection \<open>Colour accuracy, size and shape\<close>

definition analyze_color_accuracy :: "image \<Rightarrow> string \<Rightarrow> real" where
  "analyze_color_accuracy img product_type =
     (case map_of product_standards product_type of
        None \<Rightarrow> 75
      | Some standards \<Rightarrow>
          (let ideal_range = ideal_color_range standards;
               mask = map (\<lambda>p. inRange p (fst ideal_range) (snd ideal_range)) (hsv img);
               ideal_pixels = length (filter (\<lambda>m. m > 0) mask);
               total_pixels = length mask;
               color_accuracy = real ideal_pixels / real total_pixels * 100
           in min 100 (color_accuracy * 2)))"

record size_analysis =
  area :: real
  perimeter :: real
  aspect_ratio :: real
  circularity :: real
  solidity :: real
  bounding_box :: "int \<times> int \<times> int \<times> int"
  enclosing_circle :: "(real \<times> real) \<times> real"
  centroid :: "real \<times> real"

fun max_by_area :: "contour \<Rightarrow> contour list \<Rightarrow> contour" where
  \<comment> \<open>\<open>max(contours, key=cv2.contourArea)\<close>: the first contour of greatest area\<close>
  "max_by_area best [] = best"
| "max_by_area best (c # cs) =
     (if contourArea c > contourArea best then max_by_area c cs else max_by_area best cs)"

definition advanced_size_analysis :: "image \<Rightarrow> string + size_analysis" where
  \<comment> \<open>\<open>Inl\<close> is the dictionary with the single key 'error'\<close>
  "advanced_size_analysis img =
     (case edge_contours img of
        [] \<Rightarrow> Inl ''No objects detected''
      | c # cs \<Rightarrow>
          (let main_contour = max_by_area c cs;
               area = contourArea main_contour;
               perimeter = arcLength main_contour
           in case boundingRect main_contour of (x, y, w, h) \<Rightarrow>
              (let aspect_ratio = (if h > 0 then real_of_int w / real_of_int h else 0);
                   hull_area = hullArea main_contour;
                   solidity = (if hull_area > 0 then area / hull_area else 0);
                   circularity = (if perimeter > 0 then 4 * pi * area / (perimeter * perimeter) else 0);
                   centroid = (if m00 main_contour > 0
                               then (m10 main_contour / m00 main_contour,
                                     m01 main_contour / m00 main_contour)
                               else (0, 0))
               in Inr \<lparr>area = area, perimeter = perimeter, aspect_ratio = aspect_ratio,
                        circularity = circularity, solidity = solidity,
                        bounding_box = (x, y, w, h),
                        enclosing_circle = minEnclosingCircle main_contour,
                        centroid = centroid\<rparr>)))"

definition analyze_size_appropriateness :: "image \<Rightarrow> string \<Rightarrow> real" where
  "analyze_size_appropriateness img product_type =
     (case map_of product_standards product_type of
        None \<Rightarrow> 75
      | Some standards \<Rightarrow>
          (case advanced_size_analysis img of
             Inr size_analysis \<Rightarrow>
               (let area = area size_analysis;
                    min_size = fst (size_range standards);
                    max_size = snd (size_range standards)
                in if min_size \<le> area \<and> area \<le> max_size then 100
                   else if area < min_size then max 0 (100 - ((min_size - area) / min_size * 100))
                   else max 0 (100 - ((area - max_size) / max_size * 100)))
           | Inl err \<Rightarrow> 50))"

definition analyze_shape_regularity :: "image \<Rightarrow> string \<Rightarrow> real" where
  "analyze_shape_regularity img product_type =
     (case map_of product_standards product_type of
        None \<Rightarrow> 75
      | Some standards \<Rightarrow>
          (case advanced_size_analysis img of
             Inr size_analysis \<Rightarrow>
               (let actual_circularity = circularity size_analysis;
                    expected_circularity = shape_circularity standards;
                    deviation = \<bar>actual_circularity - expected_circularity\<bar>;
                    shape_score = max 0 (100 - (deviation * 100))
                in shape_score)
           | Inl err \<Rightarrow> 50))"

type_synonym metrics = "string \<rightharpoonup> real"

definition comprehensive_quality_analysis :: "image \<Rightarrow> string \<Rightarrow> metrics" where
  "comprehensive_quality_analysis img product_type =
     (let metrics = Map.empty
            (''sharpness'' \<mapsto> calculate_sharpness img,
             ''brightness'' \<mapsto> calculate_brightness img,
             ''contrast'' \<mapsto> calculate_contrast img,
             ''saturation'' \<mapsto> calculate_saturation img,
             ''noise_level'' \<mapsto> calculate_noise_level img,
             ''focus_quality'' \<mapsto> analyze_focus_quality img,
             ''lighting_quality'' \<mapsto> analyze_lighting_quality img,
             ''background_uniformity'' \<mapsto> analyze_background img)
      in if map_of product_standards product_type \<noteq> None
         then metrics
            (''color_accuracy'' \<mapsto> analyze_color_accuracy img product_type,
             ''size_appropriateness'' \<mapsto> analyze_size_appropriateness img product_type,
             ''shape_regularity'' \<mapsto> analyze_shape_regularity img product_type)
         else metrics)"

subsection \<open>Defect detectors\<close>

record defect =
  defect_type :: string
  severity :: string
  details :: "(string \<times> real) list"

definition count_spots :: "contour list \<Rightarrow> nat \<times> real" where
  \<comment> \<open>the loop over the contours: \<open>(significant_spots, total_dark_area)\<close>\<close>
  "count_spots contours =
     fold (\<lambda>contour (significant_spots, total_dark_area).
             (let area = contourArea contour
              in if area > 100 then (significant_spots + 1, total_dark_area + area)
                 else (significant_spots, total_dark_area)))
          contours (0, 0)"

definition detect_dark_spots :: "image \<Rightarrow> defect list" where
  "detect_dark_spots img =
     (case count_spots (dark_contours img) of (significant_spots, total_dark_area) \<Rightarrow>
        if significant_spots > 0
        then [\<lparr>defect_type = ''dark_spots'',
               severity = (if significant_spots > 5 then ''high'' else ''medium''),
               details = [(''count'', real significant_spots), (''total_area'', total_dark_area)]\<rparr>]
        else [])"

definition detect_color_inconsistencies :: "image \<Rightarrow> defect list" where
  "detect_color_inconsistencies img =
     (let hue_std = std (map (u8r \<circ> chan0) (hsv img))
      in if hue_std > 30
         then [\<lparr>defect_type = ''color_inconsistency'', severity = ''medium'',
                details = [(''variance'', hue_std)]\<rparr>]
         else [])"

definition blemish_percentage :: "image \<Rightarrow> real" where
  "blemish_percentage img =
     (let a_extreme = map (\<lambda>p. chan1 p < 100 \<or> chan1 p > 155) (lab img);
          b_extreme = map (\<lambda>p. chan2 p < 100 \<or> chan2 p > 155) (lab img);
          extreme_areas = map2 (\<or>) a_extreme b_extreme
      in real (length (filter (\<lambda>e. e) extreme_areas)) / real (length extreme_areas) * 100)"

definition detect_surface_blemishes :: "image \<Rightarrow> defect list" where
  "detect_surface_blemishes img =
     (if blemish_percentage img > 5
      then [\<lparr>defect_type = ''surface_blemishes'',
             severity = (if blemish_percentage img > 15 then ''high'' else ''medium''),
             details = [(''percentage'', blemish_percentage img)]\<rparr>]
      else [])"

definition detect_texture_issues :: "image \<Rightarrow> defect list" where
  \<comment> \<open>\<open>gabor_response**2\<close> is computed in \<open>uint8\<close>: the squares wrap around\<close>
  "detect_texture_issues img =
     (let texture_energy = mean (map (\<lambda>x. u8r (x ^ 2)) (gabor_response img))
      in if texture_energy > 1000
         then [\<lparr>defect_type = ''texture_irregularity'', severity = ''low'',
                details = [(''energy'', texture_energy)]\<rparr>]
         else [])"

definition detect_defects :: "image \<Rightarrow> string \<Rightarrow> defect list" where
  "detect_defects img product_type =
     detect_dark_spots img @ detect_color_inconsistencies img
     @ detect_surface_blemishes img @ detect_texture_issues img"

subsection \<open>Colour analysis and freshness\<close>

record color_analysis =
  hsv_analysis :: "(string \<times> real) list"
  lab_analysis :: "(string \<times> real) list"
  color_distribution :: "(string \<times> real) list"
  dominant_colors :: "((nat \<times> nat \<times> nat) \<times> real) list"
  color_complexity :: real

fun argmax_from :: "nat \<Rightarrow> nat \<Rightarrow> real \<Rightarrow> real list \<Rightarrow> nat" where
  \<comment> \<open>\<open>np.argmax\<close>: the first index of the greatest value\<close>
  "argmax_from i best_i best [] = best_i"
| "argmax_from i best_i best (v # vs) =
     (if v > best then argmax_from (i + 1) i v vs else argmax_from (i + 1) best_i best vs)"

definition argmax :: "real list \<Rightarrow> nat" where
  "argmax vs = (case vs of [] \<Rightarrow> 0 | v # rest \<Rightarrow> argmax_from 1 0 v rest)"

definition analyze_color_distribution :: "image \<Rightarrow> (string \<times> real) list" where
  "analyze_color_distribution img =
     (let hue_hist = calcHist (map chan0 (hsv img)) 180;
          sat_hist = calcHist (map chan1 (hsv img)) 256;
          val_hist = calcHist (map chan2 (hsv img)) 256
      in [(''hue_peaks'', real (length (filter (\<lambda>v. v > Max (set hue_hist) * 0.1) hue_hist))),
          (''saturation_peak'', real (argmax sat_hist)),
          (''value_peak'', real (argmax val_hist)),
          (''color_spread'', std hue_hist)])"

definition extract_dominant_colors :: "image \<Rightarrow> ((nat \<times> nat \<times> nat) \<times> real) list" where
  "extract_dominant_colors img =
     (case kmeans img of
        Inl e \<Rightarrow> []
      | Inr (labels, centers) \<Rightarrow>
          (let to_uint8 = (\<lambda>c. nat \<lfloor>c\<rfloor> mod 256);
               dominant_colors =
                 map (\<lambda>(i, (b, g, r)).
                        ((to_uint8 b, to_uint8 g, to_uint8 r),
                         real (length (filter (\<lambda>l. l = i) labels)) / real (length labels) * 100))
                     (enumerate 0 centers)
           in sort_key (\<lambda>x. - snd x) dominant_colors))"

definition calculate_color_complexity :: "image \<Rightarrow> real" where
  "calculate_color_complexity img =
     (let hue_hist = filter (\<lambda>v. v > 0) (calcHist (map chan0 (hsv img)) 180)
      in if length hue_hist > 0
         then (let probs = map (\<lambda>v. v / sum_list hue_hist) hue_hist
               in - sum_list (map (\<lambda>q. q * log 2 (q + 1 / 10 ^ 10)) probs))
         else 0)"

definition advanced_color_analysis :: "image \<Rightarrow> string \<Rightarrow> color_analysis" where
  "advanced_color_analysis img product_type =
     \<lparr>hsv_analysis =
        [(''mean_hue'', mean (map (u8r \<circ> chan0) (hsv img))),
         (''mean_saturation'', mean (map (u8r \<circ> chan1) (hsv img))),
         (''mean_value'', mean (map (u8r \<circ> chan2) (hsv img))),
         (''hue_std'', std (map (u8r \<circ> chan0) (hsv img))),
         (''saturation_std'', std (map (u8r \<circ> chan1) (hsv img))),
         (''value_std'', std (map (u8r \<circ> chan2) (hsv img)))],
      lab_analysis =
        [(''lightness'', mean (map (u8r \<circ> chan0) (lab img))),
         (''a_component'', mean (map (u8r \<circ> chan1) (lab img))),
         (''b_component'', mean (map (u8r \<circ> chan2) (lab img))),
         (''color_uniformity'',
            mean [std (map (u8r \<circ> chan0) (lab img)),
                  std (map (u8r \<circ> chan1) (lab img)),
                  std (map (u8r \<circ> chan2) (lab img))])],
      color_distribution = analyze_color_distribution img,
      dominant_colors = extract_dominant_colors img,
      color_complexity = calculate_color_complexity img\<rparr>"

definition analyze_freshness :: "image \<Rightarrow> string \<Rightarrow> (string \<times> real) list" where
  "analyze_freshness img product_type =
     (let color_vibrancy = mean (map (u8r \<circ> chan1) (hsv img));
          brightness = mean (map (u8r \<circ> chan2) (hsv img));
          color_uniformity = 100 - std (map (u8r \<circ> chan0) (hsv img));
          brown_mask = map (\<lambda>p. inRange p (10, 50, 50) (20, 255, 200)) (hsv img);
          brown_percentage =
            real (length (filter (\<lambda>m. m > 0) brown_mask)) / real (length brown_mask) * 100;
          freshness_score =
            (color_vibrancy * 0.3 + brightness * 0.2 + color_uniformity * 0.3
             + max 0 (100 - brown_percentage * 2) * 0.2) / 100 * 100
      in [(''color_vibrancy'', color_vibrancy),
          (''brightness'', brightness),
          (''color_uniformity'', color_uniformity),
          (''browning_percentage'', brown_percentage),
          (''freshness_score'', min 100 (max 0 freshness_score))])"

subsection \<open>Score aggregation\<close>

definition score_components :: "metrics \<Rightarrow> detection list \<Rightarrow> string \<Rightarrow> (string \<times> real) list" where
  "score_components metrics objects product_type =
     (case metrics ''sharpness'' of
        Some v \<Rightarrow> [(''sharpness'', v * 0.1)] | None \<Rightarrow> [])
   @ (case metrics ''brightness'' of
        Some v \<Rightarrow> (let brightness_score = 100 - \<bar>v - 130\<bar> * 2
                  in [(''brightness'', max 0 brightness_score * 0.1)])
      | None \<Rightarrow> [])
   @ (case metrics ''contrast'' of
        Some v \<Rightarrow> (let contrast_score = 100 - \<bar>v - 65\<bar> * 1.5
                  in [(''contrast'', max 0 contrast_score * 0.1)])
      | None \<Rightarrow> [])
   @ (case metrics ''lighting_quality'' of
        Some v \<Rightarrow> [(''lighting'', v * 0.1)] | None \<Rightarrow> [])
   @ (case metrics ''color_accuracy'' of
        Some v \<Rightarrow> [(''color_accuracy'', v * 0.2)] | None \<Rightarrow> [])
   @ (case metrics ''size_appropriateness'' of
        Some v \<Rightarrow> [(''size'', v * 0.1)] | None \<Rightarrow> [])
   @ (case metrics ''shape_regularity'' of
        Some v \<Rightarrow> [(''shape'', v * 0.1)] | None \<Rightarrow> [])
   @ (if objects \<noteq> []
      then (let avg_confidence = mean (map confidence objects) * 100
            in [(''detection'', avg_confidence * 0.1)])
      else [])
   @ (case metrics ''background_uniformity'' of
        Some v \<Rightarrow> [(''background'', v * 0.1)] | None \<Rightarrow> [])"

definition noise_penalty :: "metrics \<Rightarrow> real" where
  "noise_penalty metrics =
     (case metrics ''noise_level'' of
        Some n \<Rightarrow> if n > 20 then (n - 20) * 0.5 else 0
      | None \<Rightarrow> 0)"

definition raw_score :: "metrics \<Rightarrow> detection list \<Rightarrow> string \<Rightarrow> real" where
  \<comment> \<open>\<open>total_score - penalty\<close>, before clamping and rounding\<close>
  "raw_score metrics objects product_type =
     sum_list (map snd (score_components metrics objects product_type)) - noise_penalty metrics"

definition calculate_overall_score :: "metrics \<Rightarrow> detection list \<Rightarrow> string \<Rightarrow> real" where
  \<comment> \<open>in exact arithmetic; \<open>calculate_overall_score_fl\<close> below rounds every operation\<close>
  "calculate_overall_score metrics objects product_type =
     (let final_score = max 0 (min 100 (raw_score metrics objects product_type))
      in py_round final_score)"

subsection \<open>Score aggregation in floating point\<close>

text \<open>
  The program computes the score in binary floating point: every arithmetic operation
  delivers the exact result rounded to the format, and a literal such as 0.1 is the
  nearest number of the format. The functions of this subsection are the aggregator with
  each operation followed by the rounding \<open>fl\<close>; with the identity for \<open>fl\<close> they are the
  exact functions above. \<open>round(x, 2)\<close> rounds the exact decimal expansion of a Python
  float and computes \<open>rint(x * 100) / 100\<close> for a numpy scalar, which \<open>numpy_scalar\<close>
  tells apart; \<open>np_mean\<close> is what \<open>np.mean\<close> returns for a list of floats.
\<close>

record arith =
  fl :: "real \<Rightarrow> real"
  numpy_scalar :: bool
  np_mean :: "real list \<Rightarrow> real"


definition binary64 :: "real \<Rightarrow> real" where
  \<comment> \<open>round to nearest, ties to even, with 53 significant bits; the exponent is unbounded\<close>
  "binary64 x =
     (if x = 0 then 0
      else (let e = \<lfloor>log 2 \<bar>x\<bar>\<rfloor>; ulp = 2 powr (of_int e - 52)
            in of_int (round_half_even (x / ulp)) * ulp))"

definition exact_arith :: arith where
  "exact_arith = \<lparr>fl = (\<lambda>x. x), numpy_scalar = False, np_mean = mean\<rparr>"

definition double_arith :: arith where
  \<comment> \<open>doubles throughout, the score a numpy scalar, \<open>np.mean\<close> adding in sequence\<close>
  "double_arith =
     \<lparr>fl = binary64, numpy_scalar = True,
      np_mean = (\<lambda>xs. binary64 (foldl (\<lambda>a x. binary64 (a + x)) 0 xs / real (length xs)))\<rparr>"

definition score_components_fl ::
  "arith \<Rightarrow> metrics \<Rightarrow> detection list \<Rightarrow> string \<Rightarrow> (string \<times> real) list" where
  "score_components_fl ar metrics objects product_type =
     (case metrics ''sharpness'' of
        Some v \<Rightarrow> [(''sharpness'', fl ar (v * fl ar 0.1))] | None \<Rightarrow> [])
   @ (case metrics ''brightness'' of
        Some v \<Rightarrow> (let brightness_score = fl ar (100 - fl ar (\<bar>fl ar (v - 130)\<bar> * 2))
                  in [(''brightness'', fl ar (max 0 brightness_score * fl ar 0.1))])
      | None \<Rightarrow> [])
   @ (case metrics ''contrast'' of
        Some v \<Rightarrow> (let contrast_score = fl ar (100 - fl ar (\<bar>fl ar (v - 65)\<bar> * fl ar 1.5))
                  in [(''contrast'', fl ar (max 0 contrast_score * fl ar 0.1))])
      | None \<Rightarrow> [])
   @ (case metrics ''lighting_quality'' of
        Some v \<Rightarrow> [(''lighting'', fl ar (v * fl ar 0.1))] | None \<Rightarrow> [])
   @ (case metrics ''color_accuracy'' of
        Some v \<Rightarrow> [(''color_accuracy'', fl ar (v * fl ar 0.2))] | None \<Rightarrow> [])
   @ (case metrics ''size_appropriateness'' of
        Some v \<Rightarrow> [(''size'', fl ar (v * fl ar 0.1))] | None \<Rightarrow> [])
   @ (case metrics ''shape_regularity'' of
        Some v \<Rightarrow> [(''shape'', fl ar (v * fl ar 0.1))] | None \<Rightarrow> [])
   @ (if objects \<noteq> []
      then (let avg_confidence = fl ar (np_mean ar (map confidence objects) * 100)
            in [(''detection'', fl ar (avg_confidence * fl ar 0.1))])
      else [])
   @ (case metrics ''background_uniformity'' of
        Some v \<Rightarrow> [(''background'', fl ar (v * fl ar 0.1))] | None \<Rightarrow> [])"






subsection \<open>Grades\<close>

record criteria =
  min_score :: real
  grade_name :: string

type_synonym grade_table = "(string \<times> criteria) list"

definition default_grades :: grade_table where
  "default_grades =
     [(''A'', \<lparr>min_score = 85, grade_name = ''Premium''\<rparr>),
      (''B'', \<lparr>min_score = 70, grade_name = ''Good''\<rparr>),
      (''C'', \<lparr>min_score = 50, grade_name = ''Fair''\<rparr>),
      (''D'', \<lparr>min_score = 0, grade_name = ''Poor''\<rparr>)]"

definition sorted_grades :: "grade_table \<Rightarrow> grade_table" where
  \<comment> \<open>\<open>sorted(grades.items(), key=min_score, reverse=True)\<close>: stable, descending\<close>
  "sorted_grades grades = sort_key (\<lambda>x. - min_score (snd x)) grades"

fun first_grade :: "real \<Rightarrow> grade_table \<Rightarrow> string" where
  "first_grade score [] = ''D''"
| "first_grade score ((grade, c) # rest) =
     (if score \<ge> min_score c then grade else first_grade score rest)"

definition get_quality_grade :: "grade_table option \<Rightarrow> real \<Rightarrow> string" where
  \<comment> \<open>the argument is \<open>settings.QUALITY_GRADES\<close> when the setting exists\<close>
  "get_quality_grade setting score =
     (let grades = (case setting of Some g \<Rightarrow> g | None \<Rightarrow> default_grades)
      in first_grade score (sorted_grades grades))"

subsection \<open>Recommendations\<close>

definition metric_get :: "metrics \<Rightarrow> string \<Rightarrow> real \<Rightarrow> real" where
  \<comment> \<open>\<open>metrics.get(key, default)\<close>\<close>
  "metric_get metrics key dflt = (case metrics key of Some v \<Rightarrow> v | None \<Rightarrow> dflt)"

definition generate_recommendations :: "metrics \<Rightarrow> string \<Rightarrow> string list" where
  "generate_recommendations metrics product_type =
     (if metric_get metrics ''sharpness'' 0 < 50
      then [''Use a tripod or stabilize camera to reduce blur'',
            ''Ensure proper focus on the main subject'']
      else [])
   @ (if metric_get metrics ''lighting_quality'' 0 < 60
      then [''Improve lighting conditions - use natural light or additional lighting'',
            ''Avoid harsh shadows and direct flash'']
      else [])
   @ (if metric_get metrics ''background_uniformity'' 0 < 70
      then [''Use a plain, neutral background'', ''Remove clutter from the background'']
      else [])
   @ (if metric_get metrics ''color_accuracy'' 0 < 70
      then [''Ensure accurate color representation'', ''Check white balance settings'']
      else [])
   @ (if metric_get metrics ''noise_level'' 0 > 20
      then [''Reduce ISO settings to minimize noise'', ''Use better lighting instead of high ISO'']
      else [])
   @ [''Center the product in the frame'',
      ''Ensure the entire product is visible'',
      ''Take multiple angles for better representation'']"

subsection \<open>The analysis call\<close>

text \<open>
  What the call reads from outside the analyser: the image file (\<open>cv2.imread\<close> returns
  \<open>None\<close> for a file it cannot decode), the file's metadata (PIL and \<open>os.path\<close>), the
  Django setting \<open>QUALITY_GRADES\<close>, the clock, and, for each stage that calls OpenCV and
  numpy, the exception such a call raises, if it raises one.
\<close>

record image_info =
  dimensions :: "nat \<times> nat"
  img_format :: string
  img_mode :: string
  file_size :: nat

datatype stage = MetricsStage | DefectStage | ColorStage | SizeStage | FreshnessStage

record world =
  imread :: "string \<Rightarrow> py_exn + image option"
  image_file_info :: "string \<Rightarrow> py_exn + image_info"
  quality_grades_setting :: "grade_table option"
  cv_error :: "stage \<Rightarrow> py_exn option"
  now_isoformat :: string

datatype field =
  FNum real
| FStr string
| FInfo "image_info option"
| FObjects "detection list"
| FMetrics metrics
| FDefects "defect list"
| FColor color_analysis
| FSize "string + size_analysis"
| FFresh "(string \<times> real) list"
| FRecs "string list"

type_synonym result = "string \<rightharpoonup> field"

definition get_image_info :: "world \<Rightarrow> string \<Rightarrow> image_info option" where
  \<comment> \<open>\<open>None\<close> is the empty dictionary returned when the metadata cannot be read\<close>
  "get_image_info w image_path =
     (case image_file_info w image_path of Inl e \<Rightarrow> None | Inr info \<Rightarrow> Some info)"

definition run_stage :: "world \<Rightarrow> stage \<Rightarrow> 'a \<Rightarrow> py_exn + 'a" where
  "run_stage w s v = (case cv_error w s of Some e \<Rightarrow> Inl e | None \<Rightarrow> Inr v)"

definition analyze_image_body :: "analyzer \<Rightarrow> world \<Rightarrow> string \<Rightarrow> string \<Rightarrow> py_exn + result" where
  \<comment> \<open>the body of the \<open>try\<close> block; \<open>Inl\<close> is an exception raised inside it\<close>
  "analyze_image_body self w image_path product_type =
     (case imread w image_path of
        Inl e \<Rightarrow> Inl e
      | Inr None \<Rightarrow> Inr [''error'' \<mapsto> FStr ''Could not load image'']
      | Inr (Some img) \<Rightarrow>
          (let image_info = get_image_info w image_path;
               objects = detect_objects self img
           in case run_stage w MetricsStage (comprehensive_quality_analysis img product_type) of
                Inl e \<Rightarrow> Inl e
              | Inr quality_metrics \<Rightarrow>
          (let overall_score = calculate_overall_score quality_metrics objects product_type;
               grade = get_quality_grade (quality_grades_setting w) overall_score
           in case run_stage w DefectStage (detect_defects img product_type) of
                Inl e \<Rightarrow> Inl e
              | Inr defects \<Rightarrow>
          (case run_stage w ColorStage (advanced_color_analysis img product_type) of
                Inl e \<Rightarrow> Inl e
              | Inr color \<Rightarrow>
          (case run_stage w SizeStage (advanced_size_analysis img) of
                Inl e \<Rightarrow> Inl e
              | Inr size_result \<Rightarrow>
          (case run_stage w FreshnessStage (analyze_freshness img product_type) of
                Inl e \<Rightarrow> Inl e
              | Inr freshness \<Rightarrow>
                  Inr [''overall_score'' \<mapsto> FNum overall_score,
                       ''grade'' \<mapsto> FStr grade,
                       ''image_info'' \<mapsto> FInfo image_info,
                       ''objects_detected'' \<mapsto> FObjects objects,
                       ''quality_metrics'' \<mapsto> FMetrics quality_metrics,
                       ''defects'' \<mapsto> FDefects defects,
                       ''color_analysis'' \<mapsto> FColor color,
                       ''size_analysis'' \<mapsto> FSize size_result,
                       ''freshness_indicators'' \<mapsto> FFresh freshness,
                       ''recommendations'' \<mapsto>
                          FRecs (generate_recommendations quality_metrics product_type),
                       ''timestamp'' \<mapsto> FStr (now_isoformat w)]))))))"

definition analyze_image :: "analyzer \<Rightarrow> world \<Rightarrow> string \<Rightarrow> string \<Rightarrow> py_exn + result" where
  \<comment> \<open>\<open>except Exception as e: return {'error': str(e)}\<close>\<close>
  "analyze_image self w image_path product_type =
     (case analyze_image_body self w image_path product_type of
        Inl e \<Rightarrow> Inr [''error'' \<mapsto> FStr (exc_msg e)]
      | Inr analysis_result \<Rightarrow> Inr analysis_result)"

text \<open>
  The weighted sum as the specification words it: one weight and one normalisation per
  named metric, summed over the metrics that are present, plus the detection term.
\<close>

definition spec_weights :: "(string \<times> real \<times> (real \<Rightarrow> real)) list" where
  "spec_weights =
     [(''sharpness'', 0.1, \<lambda>v. v),
      (''brightness'', 0.1, \<lambda>v. max 0 (100 - \<bar>v - 130\<bar> * 2)),
      (''contrast'', 0.1, \<lambda>v. max 0 (100 - \<bar>v - 65\<bar> * 1.5)),
      (''lighting_quality'', 0.1, \<lambda>v. v),
      (''color_accuracy'', 0.2, \<lambda>v. v),
      (''size_appropriateness'', 0.1, \<lambda>v. v),
      (''shape_regularity'', 0.1, \<lambda>v. v),
      (''background_uniformity'', 0.1, \<lambda>v. v)]"

definition spec_weighted_sum :: "metrics \<Rightarrow> detection list \<Rightarrow> real" where
  "spec_weighted_sum m objs =
     (\<Sum>(k, w, norm) \<leftarrow> spec_weights. case m k of None \<Rightarrow> 0 | Some v \<Rightarrow> norm v * w)
     + (if objs = [] then 0 else mean (map confidence objs) * 100 * 0.1)"


subsection \<open>Example inputs\<close>


definition strict_grades :: grade_table where
  "strict_grades =
     [(''C'', \<lparr>min_score = 60, grade_name = ''Fair''\<rparr>),
      (''A'', \<lparr>min_score = 90, grade_name = ''Premium''\<rparr>),
      (''B'', \<lparr>min_score = 75, grade_name = ''Good''\<rparr>)]"

definition sample_contour :: "real \<Rightarrow> real \<Rightarrow> contour" where
  "sample_contour a p =
     \<lparr>contourArea = a, arcLength = p, boundingRect = (10, 10, 80, 60),
      minEnclosingCircle = ((50, 40), 50), hullArea = a, m00 = a, m10 = 50 * a, m01 = 40 * a\<rparr>"

definition white_pixel :: image where
  \<comment> \<open>a 1 x 1 image whose only pixel is white\<close>
  "white_pixel =
     \<lparr>bgr = [(255, 255, 255)], gray = [255], hsv = [(0, 0, 255)], lab = [(255, 128, 128)],
      laplacian = [0], blurred = [255], sobel_x = [0], sobel_y = [0], dilated_edges = [0],
      edge_contours = [], dark_contours = [], gabor_response = [255],
      kmeans = Inl (PyExc ''cv2.error'' ''kmeans: fewer samples than clusters'')\<rparr>"

definition sample_image :: image where
  \<comment> \<open>a hand-written input of four pixels with three edge contours and three dark regions\<close>
  "sample_image =
     \<lparr>bgr = [(30, 50, 200), (30, 50, 200), (20, 20, 20), (250, 250, 250)],
      gray = [93, 93, 20, 250],
      hsv = [(4, 217, 200), (4, 217, 200), (0, 0, 20), (0, 0, 250)],
      lab = [(115, 188, 178), (115, 188, 178), (20, 128, 128), (250, 128, 128)],
      laplacian = [0, -73, 303, -230],
      blurred = [93, 80, 90, 200],
      sobel_x = [0, -146, 314, 460], sobel_y = [0, 0, 0, 0],
      dilated_edges = [255, 255, 255, 255],
      edge_contours = [sample_contour 1200 140, sample_contour 4000 260, sample_contour 300 70],
      dark_contours = [sample_contour 150 50, sample_contour 90 40, sample_contour 400 80],
      gabor_response = [255, 255, 40, 255],
      kmeans = Inr ([0, 0, 1, 2], [(30, 50, 200), (20, 20, 20), (250, 250, 250)])\<rparr>"

definition placeholder_analyzer :: analyzer where
  \<comment> \<open>the analyser when ultralytics is not installed, with the default threshold\<close>
  "placeholder_analyzer = \<lparr>model = Placeholder ''placeholder_model'', confidence_threshold = 0.5\<rparr>"

definition strict_placeholder_analyzer :: analyzer where
  \<comment> \<open>the same with \<open>YOLO_CONFIDENCE_THRESHOLD = 0.9\<close>\<close>
  "strict_placeholder_analyzer = \<lparr>model = Placeholder ''placeholder_model'', confidence_threshold = 0.9\<rparr>"

definition sample_yolo :: yolo_model where
  \<comment> \<open>a backend that reports two boxes of class 47, one of them below the threshold\<close>
  "sample_yolo =
     Yolo (\<lambda>img. Inr [Some [\<lparr>conf = 0.9, xyxy = (10, 20, 110, 140), cls = 47\<rparr>,
                            \<lparr>conf = 0.3, xyxy = (0, 0, 5, 5), cls = 47\<rparr>], None])
          [47 \<mapsto> ''apple'']"

definition yolo_analyzer :: analyzer where
  "yolo_analyzer = \<lparr>model = sample_yolo, confidence_threshold = 0.5\<rparr>"

definition broken_yolo_analyzer :: analyzer where
  \<comment> \<open>a backend whose call raises\<close>
  "broken_yolo_analyzer =
     \<lparr>model = Yolo (\<lambda>img. Inl (PyExc ''RuntimeError'' ''backend unavailable'')) Map.empty,
      confidence_threshold = 0.5\<rparr>"

definition generic_metric_names :: "string set" where
  "generic_metric_names =
     {''sharpness'', ''brightness'', ''contrast'', ''saturation'', ''noise_level'',
      ''focus_quality'', ''lighting_quality'', ''background_uniformity''}"

definition product_metric_names :: "string set" where
  "product_metric_names = {''color_accuracy'', ''size_appropriateness'', ''shape_regularity''}"

definition result_keys :: "string set" where
  \<comment> \<open>the keys of the dictionary \<open>analysis_result\<close>\<close>
  "result_keys =
     {''timestamp'', ''recommendations'', ''freshness_indicators'', ''size_analysis'',
      ''color_analysis'', ''defects'', ''quality_metrics'', ''objects_detected'',
      ''image_info'', ''grade'', ''overall_score''}"

definition unreadable_world :: world where
  \<comment> \<open>every path names a file that neither OpenCV nor PIL can decode\<close>
  "unreadable_world =
     \<lparr>imread = (\<lambda>p. Inr None),
      image_file_info = (\<lambda>p. Inl (PyExc ''UnidentifiedImageError'' ''cannot identify image file'')),
      quality_grades_setting = None,
      cv_error = (\<lambda>s. None),
      now_isoformat = ''2024-01-01T00:00:00+00:00''\<rparr>"

definition sample_world :: world where
  \<comment> \<open>every path decodes to \<open>sample_image\<close> and no OpenCV call raises\<close>
  "sample_world =
     \<lparr>imread = (\<lambda>p. Inr (Some sample_image)),
      image_file_info =
        (\<lambda>p. Inr \<lparr>dimensions = (2, 2), img_format = ''JPEG'', img_mode = ''RGB'', file_size = 640\<rparr>),
      quality_grades_setting = None,
      cv_error = (\<lambda>s. None),
      now_isoformat = ''2024-01-01T00:00:00+00:00''\<rparr>"




section \<open>Properties\<close>

subsection \<open>Rounding\<close>

lemma rhe_floor_le: "\<lfloor>x\<rfloor> \<le> round_half_even x"
  unfolding round_half_even_def Let_def by auto

lemma rhe_le_floor_Suc: "round_half_even x \<le> \<lfloor>x\<rfloor> + 1"
  unfolding round_half_even_def Let_def by auto

lemma rhe_int: "round_half_even (of_int n) = n"
  unfolding round_half_even_def Let_def by auto

lemma rhe_mono: assumes "x \<le> y" shows "round_half_even x \<le> round_half_even y"
proof (cases "\<lfloor>x\<rfloor> = \<lfloor>y\<rfloor>")
  case True
  then show ?thesis using assms
    unfolding round_half_even_def Let_def by auto
next
  case False
  with assms have "\<lfloor>x\<rfloor> < \<lfloor>y\<rfloor>" using floor_mono[OF assms] by linarith
  then have "round_half_even x \<le> \<lfloor>y\<rfloor>" using rhe_le_floor_Suc[of x] by linarith
  then show ?thesis using rhe_floor_le[of y] by linarith
qed

lemma rhe_near: "\<bar>of_int (round_half_even x) - x\<bar> \<le> 1 / 2"
  unfolding round_half_even_def Let_def by (auto simp: abs_if) linarith+

lemma py_round_mono: "x \<le> y \<Longrightarrow> py_round x \<le> py_round y"
  unfolding py_round_def using rhe_mono[of "x * 100" "y * 100"]
  by (simp add: divide_right_mono)

lemma py_round_int: "py_round (of_int n) = of_int n"
  using rhe_int[of "n * 100"] unfolding py_round_def by simp

lemma py_round_range: assumes "0 \<le> x" "x \<le> 100" shows "0 \<le> py_round x \<and> py_round x \<le> 100"
proof -
  have "py_round 0 \<le> py_round x" "py_round x \<le> py_round 100"
    using assms py_round_mono by blast+
  moreover have "py_round 0 = 0" using py_round_int[of 0] by simp
  moreover have "py_round 100 = 100" using py_round_int[of 100] by simp
  ultimately show ?thesis by simp
qed

subsection \<open>Floating-point rounding\<close>

























subsection \<open>Aggregation and grading\<close>

lemma sum_component [simp]:
  "sum_list (map snd (case x of Some v \<Rightarrow> [(k, f v)] | None \<Rightarrow> [])) = (case x of Some v \<Rightarrow> f v | None \<Rightarrow> 0)"
  by (cases x) auto

lemma components_sum:
  "sum_list (map snd (score_components m objs pt)) = spec_weighted_sum m objs"
  unfolding score_components_def spec_weighted_sum_def spec_weights_def Let_def
  by (simp split: option.split)


lemma set_sorted_grades [simp]: "set (sorted_grades g) = set g"
  by (simp add: sorted_grades_def)


lemma rhe_eval: "of_int n - 1/2 < x \<Longrightarrow> x < of_int n + 1/2 \<Longrightarrow> round_half_even x = n"
  using rhe_near[of x] by linarith


lemma sorted_strict: "sorted_grades strict_grades =
   [(''A'', \<lparr>min_score = 90, grade_name = ''Premium''\<rparr>),
      (''B'', \<lparr>min_score = 75, grade_name = ''Good''\<rparr>),
  (''C'', \<lparr>min_score = 60, grade_name = ''Fair''\<rparr>)]"
  by (simp add: sorted_grades_def strict_grades_def)

lemma sorted_default: "sorted_grades default_grades = default_grades"
  by (simp add: sorted_grades_def default_grades_def)

lemma first_grade_met:
  assumes "sorted (map (\<lambda>x. - min_score (snd x)) xs)" "\<exists>x\<in>set xs. min_score (snd x) \<le> s"
  shows "\<exists>c. (first_grade s xs, c) \<in> set xs \<and> min_score c \<le> s
             \<and> (\<forall>x\<in>set xs. min_score (snd x) \<le> s \<longrightarrow> min_score (snd x) \<le> min_score c)"
  using assms
proof (induction xs)
  case Nil
  then show ?case by simp
next
  case (Cons a xs)
  obtain g c where a: "a = (g, c)" by (cases a)
  show ?case
  proof (cases "min_score c \<le> s")
    case True
    have "\<forall>x\<in>set xs. min_score (snd x) \<le> min_score c"
      using Cons.prems(1) a by auto
    then show ?thesis using True a by auto
  next
    case False
    then have ex: "\<exists>x\<in>set xs. min_score (snd x) \<le> s" using Cons.prems(2) a by auto
    have srt: "sorted (map (\<lambda>x. - min_score (snd x)) xs)" using Cons.prems(1) by simp
    from Cons.IH[OF srt ex] obtain c' where
      c': "(first_grade s xs, c') \<in> set xs" "min_score c' \<le> s"
          "\<forall>x\<in>set xs. min_score (snd x) \<le> s \<longrightarrow> min_score (snd x) \<le> min_score c'"
      by blast
    have "first_grade s (a # xs) = first_grade s xs" using False a by simp
    then show ?thesis using c' False a by auto
  qed
qed

lemma first_grade_none: "\<forall>x\<in>set xs. \<not> min_score (snd x) \<le> s \<Longrightarrow> first_grade s xs = ''D''"
  by (induction xs) auto

lemma first_grade_first:
  "\<exists>x\<in>set xs. min_score (snd x) \<le> s \<Longrightarrow>
   \<exists>i<length xs. first_grade s xs = fst (xs ! i) \<and> min_score (snd (xs ! i)) \<le> s
        \<and> (\<forall>j<i. \<not> min_score (snd (xs ! j)) \<le> s)"
proof (induction xs)
  case Nil
  then show ?case by simp
next
  case (Cons a xs)
  obtain g c where a: "a = (g, c)" by (cases a)
  show ?case
  proof (cases "min_score c \<le> s")
    case True
    then show ?thesis using a by (intro exI[of _ 0]) simp
  next
    case False
    then have "\<exists>x\<in>set xs. min_score (snd x) \<le> s" using Cons.prems a by auto
    from Cons.IH[OF this] obtain i where i: "i < length xs" "first_grade s xs = fst (xs ! i)"
      "min_score (snd (xs ! i)) \<le> s" "\<forall>j<i. \<not> min_score (snd (xs ! j)) \<le> s" by blast
    have "\<forall>j<Suc i. \<not> min_score (snd ((a # xs) ! j)) \<le> s"
      using i(4) False a by (auto simp: less_Suc_eq_0_disj)
    then show ?thesis using i False a by (intro exI[of _ "Suc i"]) simp
  qed
qed

lemma sorted_grades_sorted: "sorted (map (\<lambda>x. - min_score (snd x)) (sorted_grades g))"
  by (simp add: sorted_grades_def)

text \<open>The literal 0.1 of the program is the double 3602879701896397 / 2 ^ 55.\<close>

lemma floor_log_tenth: "\<lfloor>log 2 \<bar>1 / 10 :: real\<bar>\<rfloor> = - 4"
proof -
  have a: "(2::real) powr (- 4) \<le> 1 / 10"
    by (simp add: powr_minus_divide)
  have b: "(1 / 10 :: real) < 2 powr (- 3)"
    by (simp add: powr_minus_divide)
  have 1: "- 4 \<le> log 2 (1 / 10 :: real)"
    using a le_log_iff[of 2 "1 / 10" "- 4"] by simp
  have 2: "log 2 (1 / 10 :: real) < - 3"
    using b log_less_iff[of 2 "1 / 10" "- 3"] by simp
  have "\<lfloor>log 2 (1 / 10 :: real)\<rfloor> = - 4"
    using 1 2 by (simp add: floor_eq_iff)
  then show ?thesis by simp
qed

lemma binary64_tenth: "binary64 (1 / 10) = 3602879701896397 / 2 ^ 55"
proof -
  have u: "(2::real) powr (of_int (- 4) - 52) = 1 / 2 ^ 56"
    using powr_minus_divide[of "2::real" 56] by simp
  have r: "round_half_even ((1 / 10 :: real) / (1 / 2 ^ 56)) = 7205759403792794"
    by (rule rhe_eval) simp_all
  show ?thesis
    unfolding binary64_def Let_def floor_log_tenth u r by simp
qed





lemma list_component [simp]:
  "map snd (case x of Some v \<Rightarrow> [(k, f v)] | None \<Rightarrow> []) = (case x of None \<Rightarrow> [] | Some v \<Rightarrow> [f v])"
  by (cases x) auto



lemma exact_arith_sel [simp]:
  "fl exact_arith = (\<lambda>x. x)" "numpy_scalar exact_arith = False" "np_mean exact_arith = mean"
  by (simp_all add: exact_arith_def)








lemma double_arith_fl [simp]: "fl double_arith = binary64"
  by (simp add: double_arith_def)







text \<open>
  C5: for every score and every configured grade table, the grade returned is that of the
  first entry, in descending order of minimum score, whose minimum score the score meets
  or exceeds (so its minimum score is the greatest one met), and D when the score meets
  none; with the default table 85.0 is graded A and 84.99 is graded B.
\<close>

theorem grade_first_descending:
  "((\<exists>x\<in>set grades. min_score (snd x) \<le> s) \<longrightarrow>
      (\<exists>i<length (sorted_grades grades).
          get_quality_grade (Some grades) s = fst (sorted_grades grades ! i)
        \<and> min_score (snd (sorted_grades grades ! i)) \<le> s
        \<and> (\<forall>j<i. \<not> min_score (snd (sorted_grades grades ! j)) \<le> s))
    \<and> (\<exists>c. (get_quality_grade (Some grades) s, c) \<in> set grades \<and> min_score c \<le> s
           \<and> (\<forall>x\<in>set grades. min_score (snd x) \<le> s \<longrightarrow> min_score (snd x) \<le> min_score c)))
   \<and> ((\<forall>x\<in>set grades. \<not> min_score (snd x) \<le> s) \<longrightarrow>
        get_quality_grade (Some grades) s = ''D'')
   \<and> mset (sorted_grades grades) = mset grades
   \<and> sorted (rev (map (\<lambda>x. min_score (snd x)) (sorted_grades grades)))
   \<and> get_quality_grade None 85.0 = ''A''
   \<and> get_quality_grade None 84.99 = ''B''"
proof -
  have g: "get_quality_grade (Some grades) s = first_grade s (sorted_grades grades)"
    by (simp add: get_quality_grade_def)
  have 1: "\<exists>i<length (sorted_grades grades).
          get_quality_grade (Some grades) s = fst (sorted_grades grades ! i)
        \<and> min_score (snd (sorted_grades grades ! i)) \<le> s
        \<and> (\<forall>j<i. \<not> min_score (snd (sorted_grades grades ! j)) \<le> s)"
    if "\<exists>x\<in>set grades. min_score (snd x) \<le> s"
    unfolding g using first_grade_first[of "sorted_grades grades" s] that by simp
  have 2: "\<exists>c. (get_quality_grade (Some grades) s, c) \<in> set grades \<and> min_score c \<le> s
           \<and> (\<forall>x\<in>set grades. min_score (snd x) \<le> s \<longrightarrow> min_score (snd x) \<le> min_score c)"
    if "\<exists>x\<in>set grades. min_score (snd x) \<le> s"
    unfolding g using first_grade_met[OF sorted_grades_sorted, of grades s] that by simp
  have 3: "mset (sorted_grades grades) = mset grades"
    by (simp add: sorted_grades_def)
  have "sorted (map (\<lambda>x. - min_score (snd x)) (sorted_grades grades))"
    by (rule sorted_grades_sorted)
  then have 4: "sorted (rev (map (\<lambda>x. min_score (snd x)) (sorted_grades grades)))"
    by (simp add: sorted_wrt_rev sorted_map sorted_wrt_map)
  have 5: "get_quality_grade None 85.0 = ''A''"
    by (simp add: get_quality_grade_def sorted_default) (simp add: default_grades_def)
  have 6: "get_quality_grade None 84.99 = ''B''"
    by (simp add: get_quality_grade_def sorted_default) (simp add: default_grades_def)
  have 7: "get_quality_grade (Some grades) s = ''D''"
    if "\<forall>x\<in>set grades. \<not> min_score (snd x) \<le> s"
    unfolding g using first_grade_none[of "sorted_grades grades" s] that by simp
  show ?thesis using 1 2 3 4 5 6 7 by blast
qed

theorem grade_first_descending_witness:
  "(\<exists>x\<in>set strict_grades. min_score (snd x) \<le> 81.5)
   \<and> get_quality_grade (Some strict_grades) 81.5 = ''B''
   \<and> (\<exists>c. (''B'', c) \<in> set strict_grades \<and> min_score c \<le> 81.5
           \<and> (\<forall>x\<in>set strict_grades. min_score (snd x) \<le> 81.5 \<longrightarrow> min_score (snd x) \<le> min_score c))"
proof -
  have h: "\<exists>x\<in>set strict_grades. min_score (snd x) \<le> 81.5"
    by (simp add: strict_grades_def)
  have v: "get_quality_grade (Some strict_grades) 81.5 = ''B''"
    by (simp add: get_quality_grade_def sorted_strict)
  have "\<exists>c. (get_quality_grade (Some strict_grades) 81.5, c) \<in> set strict_grades \<and> min_score c \<le> 81.5
           \<and> (\<forall>x\<in>set strict_grades. min_score (snd x) \<le> 81.5 \<longrightarrow> min_score (snd x) \<le> min_score c)"
    using grade_first_descending[of strict_grades "81.5"] h by blast
  then show ?thesis unfolding v using h v by blast
qed

subsection \<open>Noise penalty\<close>

lemma components_noise [simp]:
  "score_components (m(''noise_level'' \<mapsto> n)) objs pt = score_components m objs pt"
  by (simp add: score_components_def)


lemma components_noise_fl [simp]:
  "score_components_fl ar (m(''noise_level'' \<mapsto> n)) objs pt = score_components_fl ar m objs pt"
  by (simp add: score_components_fl_def)









subsection \<open>Size appropriateness\<close>

lemma max_by_area_in: "max_by_area c cs \<in> set (c # cs)"
  by (induction cs arbitrary: c) auto

lemma max_by_area_ge_all: "\<forall>x\<in>set (c # cs). contourArea x \<le> contourArea (max_by_area c cs)"
proof (induction cs arbitrary: c)
  case Nil
  then show ?case by simp
next
  case (Cons d ds)
  show ?case
  proof (cases "contourArea d > contourArea c")
    case True
    have "\<forall>x\<in>set (d # ds). contourArea x \<le> contourArea (max_by_area d ds)" by (rule Cons.IH)
    then show ?thesis using True by auto
  next
    case False
    have "\<forall>x\<in>set (c # ds). contourArea x \<le> contourArea (max_by_area c ds)" by (rule Cons.IH)
    then show ?thesis using False by auto
  qed
qed

lemma max_by_area_ge: "x \<in> set (c # cs) \<Longrightarrow> contourArea x \<le> contourArea (max_by_area c cs)"
  using max_by_area_ge_all by blast

lemma size_analysis_area:
  assumes "advanced_size_analysis img = Inr sa"
  shows "\<exists>c\<in>set (edge_contours img). contourArea c = area sa
           \<and> (\<forall>c'\<in>set (edge_contours img). contourArea c' \<le> area sa)"
proof (cases "edge_contours img")
  case Nil
  then show ?thesis using assms by (simp add: advanced_size_analysis_def)
next
  case (Cons c cs)
  then have "area sa = contourArea (max_by_area c cs)"
    using assms by (auto simp: advanced_size_analysis_def Let_def split: prod.splits)
  then show ?thesis using Cons max_by_area_in[of c cs] max_by_area_ge[of _ c cs]
    by (metis)
qed

lemma standards_positive:
  "map_of product_standards pt = Some st \<Longrightarrow>
     0 < fst (size_range st) \<and> fst (size_range st) < snd (size_range st)"
  by (auto simp: product_standards_def split: if_splits)

text \<open>
  C6: for a product type with a known standard whose size range is (mn, mx), and a, the
  area of the largest edge contour measured by the size analysis: the size appropriateness
  is 100 when mn <= a <= mx, max(0, 100 - ((mn - a) / mn) * 100) when a < mn, and
  max(0, 100 - ((a - mx) / mx) * 100) when a > mx; for an unknown product type the function
  returns 75.
\<close>

theorem size_appropriateness_formula:
  "(map_of product_standards product_type = Some standards \<and> size_range standards = (mn, mx)
      \<and> advanced_size_analysis img = Inr sa \<and> a = area sa \<longrightarrow>
       (\<exists>c\<in>set (edge_contours img). contourArea c = a
            \<and> (\<forall>c'\<in>set (edge_contours img). contourArea c' \<le> a))
       \<and> (mn \<le> a \<and> a \<le> mx \<longrightarrow> analyze_size_appropriateness img product_type = 100)
       \<and> (a < mn \<longrightarrow>
            analyze_size_appropriateness img product_type = max 0 (100 - ((mn - a) / mn) * 100))
       \<and> (a > mx \<longrightarrow>
            analyze_size_appropriateness img product_type = max 0 (100 - ((a - mx) / mx) * 100)))
   \<and> (map_of product_standards product_type = None \<longrightarrow>
        analyze_size_appropriateness img product_type = 75)"
proof (intro conjI impI)
  assume "map_of product_standards product_type = None"
  then show "analyze_size_appropriateness img product_type = 75"
    by (simp add: analyze_size_appropriateness_def)
next
  assume h: "map_of product_standards product_type = Some standards \<and> size_range standards = (mn, mx)
      \<and> advanced_size_analysis img = Inr sa \<and> a = area sa"
  then show "\<exists>c\<in>set (edge_contours img). contourArea c = a
            \<and> (\<forall>c'\<in>set (edge_contours img). contourArea c' \<le> a)"
    using size_analysis_area[of img sa] by simp
  have v: "analyze_size_appropriateness img product_type =
       (if mn \<le> a \<and> a \<le> mx then 100
        else if a < mn then max 0 (100 - ((mn - a) / mn * 100))
        else max 0 (100 - ((a - mx) / mx * 100)))"
    using h by (simp add: analyze_size_appropriateness_def)
  have lt: "mn < mx" using h standards_positive[of product_type standards] by simp
  { assume "mn \<le> a \<and> a \<le> mx"
    then show "analyze_size_appropriateness img product_type = 100" using v by simp }
  { assume "a < mn"
    then show "analyze_size_appropriateness img product_type = max 0 (100 - ((mn - a) / mn) * 100)"
      using v lt by simp }
  { assume "a > mx"
    then show "analyze_size_appropriateness img product_type = max 0 (100 - ((a - mx) / mx) * 100)"
      using v lt by simp }
qed

lemma sample_size: "advanced_size_analysis sample_image =
    Inr \<lparr>area = 4000, perimeter = 260, aspect_ratio = 80 / 60,
         circularity = 4 * pi * 4000 / (260 * 260), solidity = 1,
         bounding_box = (10, 10, 80, 60), enclosing_circle = ((50, 40), 50), centroid = (50, 40)\<rparr>"
  by (simp add: advanced_size_analysis_def sample_image_def sample_contour_def)

lemma apple_standard: "map_of product_standards ''apple'' =
   Some \<lparr>ideal_color_range = ((0, 100, 100), (10, 255, 255)),
         size_range = (5000, 50000), shape_circularity = 0.7, defect_tolerance = 0.1\<rparr>"
  by (simp add: product_standards_def)

theorem size_appropriateness_formula_witness:
  "map_of product_standards ''apple'' =
     Some \<lparr>ideal_color_range = ((0, 100, 100), (10, 255, 255)),
           size_range = (5000, 50000), shape_circularity = 0.7, defect_tolerance = 0.1\<rparr>
   \<and> (\<exists>sa. advanced_size_analysis sample_image = Inr sa \<and> area sa = 4000)
   \<and> (4000::real) < 5000
   \<and> analyze_size_appropriateness sample_image ''apple'' = 80
   \<and> map_of product_standards ''mango'' = None
   \<and> analyze_size_appropriateness sample_image ''mango'' = 75"
proof -
  let ?st = "\<lparr>ideal_color_range = ((0, 100, 100), (10, 255, 255)),
           size_range = (5000, 50000), shape_circularity = 7 / 10, defect_tolerance = 1 / 10\<rparr> :: standard"
  let ?sa = "\<lparr>area = 4000, perimeter = 260, aspect_ratio = 80 / 60,
         circularity = 4 * pi * 4000 / (260 * 260), solidity = 1,
         bounding_box = (10, 10, 80, 60), enclosing_circle = ((50, 40), 50), centroid = (50, 40)\<rparr> :: size_analysis"
  have st: "map_of product_standards ''apple'' = Some ?st" using apple_standard by simp
  have h: "map_of product_standards ''apple'' = Some ?st \<and> size_range ?st = (5000, 50000)
      \<and> advanced_size_analysis sample_image = Inr ?sa \<and> (4000::real) = area ?sa"
    using st sample_size by simp
  have "analyze_size_appropriateness sample_image ''apple'' = max 0 (100 - ((5000 - 4000) / 5000) * 100)"
    using size_appropriateness_formula[of "''apple''" ?st 5000 50000 sample_image ?sa 4000] h by simp
  then have v: "analyze_size_appropriateness sample_image ''apple'' = 80" by simp
  have n: "map_of product_standards ''mango'' = None" by (simp add: product_standards_def)
  then have w: "analyze_size_appropriateness sample_image ''mango'' = 75"
    using size_appropriateness_formula[of "''mango''" ?st 5000 50000 sample_image ?sa 4000] by simp
  show ?thesis using apple_standard sample_size v n w by simp
qed

subsection \<open>Object detector adapter\<close>

lemma scan_boxes_conf:
  "\<forall>d\<in>set objects. confidence d \<ge> thr \<Longrightarrow>
   \<forall>d\<in>set (fst (scan_boxes names thr bs objects)). confidence d \<ge> thr"
proof (induction bs arbitrary: objects)
  case Nil
  then show ?case by simp
next
  case (Cons b bs)
  show ?case
  proof (cases "conf b \<ge> thr")
    case False
    then show ?thesis using Cons.IH[OF Cons.prems] by simp
  next
    case True
    obtain x1 y1 x2 y2 where xy: "xyxy b = (x1, y1, x2, y2)" by (cases "xyxy b")
    show ?thesis
    proof (cases "names (cls b)")
      case None
      then show ?thesis using True xy Cons.prems by simp
    next
      case (Some class_name)
      let ?objs = "objects @ [\<lparr>det_class = class_name, confidence = conf b,
                               bbox = [x1, y1, x2, y2],
                               center = [(x1 + x2) / 2, (y1 + y2) / 2]\<rparr>]"
      have "\<forall>d\<in>set ?objs. confidence d \<ge> thr" using True Cons.prems by simp
      from Cons.IH[OF this] show ?thesis using True xy Some by simp
    qed
  qed
qed

lemma scan_results_conf:
  "\<forall>d\<in>set objects. confidence d \<ge> thr \<Longrightarrow>
   \<forall>d\<in>set (fst (scan_results names thr rs objects)). confidence d \<ge> thr"
proof (induction rs arbitrary: objects)
  case Nil
  then show ?case by simp
next
  case (Cons r rs)
  show ?case
  proof (cases r)
    case None
    then show ?thesis using Cons by simp
  next
    case (Some boxes)
    obtain objs' err where sb: "scan_boxes names thr boxes objects = (objs', err)"
      by (cases "scan_boxes names thr boxes objects")
    have o': "\<forall>d\<in>set objs'. confidence d \<ge> thr"
      using scan_boxes_conf[OF Cons.prems, of names boxes] sb by simp
    show ?thesis
    proof (cases err)
      case None
      then show ?thesis using Some sb Cons.IH[OF o'] by simp
    next
      case (Some e)
      then show ?thesis using \<open>r = Some boxes\<close> sb o' by simp
    qed
  qed
qed

lemma no_detection_component:
  "''detection'' \<notin> fst ` set (score_components metrics [] product_type)"
  by (auto simp: score_components_def split: option.splits)

text \<open>
  C2, as amended: when no detection backend is available (the model is the placeholder
  string) the adapter returns exactly one simulated detection, of class fruit and
  confidence 0.85, whatever the threshold; with a YOLO backend every detection returned
  has confidence at or above the configured threshold, and a backend call that raises
  yields the empty list instead of an error; and for an empty detection list the
  aggregator has no detection component, so the total is the weighted sum of the present
  metrics alone.
\<close>

theorem detect_objects_contract:
  "(\<forall>s. model self = Placeholder s \<longrightarrow>
        detect_objects self img = [placeholder_detection]
      \<and> confidence placeholder_detection = 0.85)
   \<and> (\<forall>run names. model self = Yolo run names \<longrightarrow>
        (\<forall>d\<in>set (detect_objects self img). confidence d \<ge> confidence_threshold self)
      \<and> (\<forall>e. run img = Inl e \<longrightarrow> detect_objects self img = []))
   \<and> ''detection'' \<notin> fst ` set (score_components metrics [] product_type)
   \<and> sum_list (map snd (score_components metrics [] product_type))
        = (\<Sum>(k, w, norm) \<leftarrow> spec_weights. case metrics k of None \<Rightarrow> 0 | Some v \<Rightarrow> norm v * w)"
proof -
  have 1: "detect_objects self img = [placeholder_detection] \<and> confidence placeholder_detection = 0.85"
    if "model self = Placeholder s" for s
    using that by (simp add: detect_objects_def placeholder_detection_def)
  have 2: "\<forall>d\<in>set (detect_objects self img). confidence d \<ge> confidence_threshold self"
    if m: "model self = Yolo run names" for run names
  proof (cases "run img")
    case (Inl e)
    then show ?thesis using m by (simp add: detect_objects_def)
  next
    case (Inr results)
    then show ?thesis
      using m scan_results_conf[of "[]" "confidence_threshold self" names results]
      by (simp add: detect_objects_def)
  qed
  have 3: "detect_objects self img = []"
    if "model self = Yolo run names" "run img = Inl e" for run names e
    using that by (simp add: detect_objects_def)
  have 4: "sum_list (map snd (score_components metrics [] product_type))
        = (\<Sum>(k, w, norm) \<leftarrow> spec_weights. case metrics k of None \<Rightarrow> 0 | Some v \<Rightarrow> norm v * w)"
    using components_sum[of metrics "[]" product_type] by (simp add: spec_weighted_sum_def)
  show ?thesis using 1 2 3 4 no_detection_component by blast
qed

lemma sample_yolo_detect:
  "detect_objects yolo_analyzer sample_image =
     [\<lparr>det_class = ''apple'', confidence = 0.9, bbox = [10, 20, 110, 140], center = [60, 80]\<rparr>]"
  by (simp add: detect_objects_def yolo_analyzer_def sample_yolo_def)

theorem detect_objects_contract_witness:
  "model placeholder_analyzer = Placeholder ''placeholder_model''
   \<and> detect_objects placeholder_analyzer sample_image = [placeholder_detection]
   \<and> model yolo_analyzer = sample_yolo
   \<and> detect_objects yolo_analyzer sample_image =
       [\<lparr>det_class = ''apple'', confidence = 0.9, bbox = [10, 20, 110, 140], center = [60, 80]\<rparr>]
   \<and> confidence_threshold yolo_analyzer
        \<le> confidence \<lparr>det_class = ''apple'', confidence = 0.9, bbox = [10, 20, 110, 140], center = [60, 80]\<rparr>
   \<and> detect_objects broken_yolo_analyzer sample_image = []"
proof -
  have p: "model placeholder_analyzer = Placeholder ''placeholder_model''"
    by (simp add: placeholder_analyzer_def)
  have y: "model yolo_analyzer =
      Yolo (\<lambda>img. Inr [Some [\<lparr>conf = 0.9, xyxy = (10, 20, 110, 140), cls = 47\<rparr>,
                            \<lparr>conf = 0.3, xyxy = (0, 0, 5, 5), cls = 47\<rparr>], None])
          [47 \<mapsto> ''apple'']"
    by (simp add: yolo_analyzer_def sample_yolo_def)
  have b: "model broken_yolo_analyzer = Yolo (\<lambda>img. Inl (PyExc ''RuntimeError'' ''backend unavailable'')) Map.empty"
    by (simp add: broken_yolo_analyzer_def)
  have 1: "detect_objects placeholder_analyzer sample_image = [placeholder_detection]"
    using detect_objects_contract[of placeholder_analyzer sample_image] p by blast
  have 2: "\<forall>d\<in>set (detect_objects yolo_analyzer sample_image). confidence d \<ge> confidence_threshold yolo_analyzer"
    using detect_objects_contract[of yolo_analyzer sample_image] y by blast
  have 3: "detect_objects broken_yolo_analyzer sample_image = []"
    using detect_objects_contract[of broken_yolo_analyzer sample_image] b by blast
  have 4: "model yolo_analyzer = sample_yolo" by (simp add: yolo_analyzer_def)
  have 5: "confidence_threshold yolo_analyzer
        \<le> confidence \<lparr>det_class = ''apple'', confidence = 0.9, bbox = [10, 20, 110, 140], center = [60, 80]\<rparr>"
    using 2 unfolding sample_yolo_detect by simp
  show ?thesis using p 1 3 4 5 sample_yolo_detect by blast
qed

text \<open>
  C2 as stated fails: without a backend the detection list is not empty, and the simulated
  detection is returned even when its confidence is below the configured threshold.
\<close>

theorem detect_objects_contract_counterexample:
  "model placeholder_analyzer = Placeholder ''placeholder_model''
   \<and> detect_objects placeholder_analyzer white_pixel \<noteq> []
   \<and> detect_objects strict_placeholder_analyzer white_pixel = [placeholder_detection]
   \<and> confidence placeholder_detection < confidence_threshold strict_placeholder_analyzer"
  by (simp add: detect_objects_def placeholder_analyzer_def strict_placeholder_analyzer_def
      placeholder_detection_def)

subsection \<open>Ranges of the metrics\<close>

lemma u8r_bounds: "0 \<le> u8r x \<and> u8r x \<le> 255"
proof -
  have "unat x < 2 ^ 8" using unsigned_less[of x] by simp
  then have "unat x \<le> 255" by simp
  then have a: "real (unat x) \<le> real 255" by (simp only: of_nat_le_iff)
  have b: "0 \<le> real (unat x)" by (rule of_nat_0_le_iff)
  have c: "real 255 = 255" by simp
  show ?thesis unfolding u8r_def using a b c by linarith
qed

lemma sum_list_upper: "\<forall>x\<in>set xs. x \<le> b \<Longrightarrow> sum_list xs \<le> b * real (length xs)"
  by (induction xs) (auto simp: algebra_simps)

lemma mean_nonneg: "\<forall>x\<in>set xs. 0 \<le> x \<Longrightarrow> 0 \<le> mean xs"
  by (simp add: mean_def sum_list_nonneg)

lemma mean_upper: assumes "\<forall>x\<in>set xs. x \<le> b" "0 \<le> b" shows "mean xs \<le> b"
proof (cases "xs = []")
  case True
  then show ?thesis using assms by (simp add: mean_def)
next
  case False
  then have "0 < real (length xs)" by simp
  then show ?thesis using sum_list_upper[OF assms(1)]
    by (simp add: mean_def pos_divide_le_eq)
qed

lemma variance_nonneg: "0 \<le> variance xs"
  unfolding variance_def by (rule mean_nonneg) simp

lemma std_nonneg: "0 \<le> std xs"
  by (simp add: std_def variance_nonneg)

lemma sharpness_range: "0 \<le> calculate_sharpness img \<and> calculate_sharpness img \<le> 100"
  using variance_nonneg[of "laplacian img"] by (simp add: calculate_sharpness_def)

lemma brightness_range: "0 \<le> calculate_brightness img \<and> calculate_brightness img \<le> 255"
  unfolding calculate_brightness_def
  using mean_nonneg[of "map u8r (gray img)"] mean_upper[of "map u8r (gray img)" 255] u8r_bounds
  by simp

lemma saturation_range: "0 \<le> calculate_saturation img \<and> calculate_saturation img \<le> 255"
  unfolding calculate_saturation_def
  using mean_nonneg[of "map (u8r \<circ> chan1) (hsv img)"]
    mean_upper[of "map (u8r \<circ> chan1) (hsv img)" 255] u8r_bounds
  by simp

lemma noise_range: "0 \<le> calculate_noise_level img \<and> calculate_noise_level img \<le> 255"
  unfolding calculate_noise_level_def Let_def
  using mean_nonneg[of "map u8r (map2 absdiff (gray img) (blurred img))"]
    mean_upper[of "map u8r (map2 absdiff (gray img) (blurred img))" 255] u8r_bounds
  by simp

lemma contrast_nonneg: "0 \<le> calculate_contrast img"
  by (simp add: calculate_contrast_def std_nonneg)

lemma focus_nonneg: "0 \<le> analyze_focus_quality img"
  unfolding analyze_focus_quality_def Let_def
  by (rule mean_nonneg) auto

lemma calcHist_nonneg: "\<forall>v\<in>set (calcHist buf n). 0 \<le> v"
  by (simp add: calcHist_def)

lemma lighting_range: "0 \<le> analyze_lighting_quality img \<and> analyze_lighting_quality img \<le> 100"
proof -
  let ?hist = "calcHist (gray img) 256"
  have len: "length ?hist = 256" by (simp add: calcHist_def)
  have "length (filter (\<lambda>v. v \<noteq> 0) ?hist) \<le> 256"
    using length_filter_le[of "\<lambda>v. v \<noteq> 0" ?hist] len by simp
  then have d: "real (length (filter (\<lambda>v. v \<noteq> 0) ?hist)) / 256 * 100 \<le> 100" by simp
  have s: "0 \<le> sum_list ?hist" using calcHist_nonneg by (simp add: sum_list_nonneg)
  have "0 \<le> sum_list (drop 240 ?hist)"
    using calcHist_nonneg[of "gray img" 256] by (meson in_set_dropD sum_list_nonneg)
  then have o: "0 \<le> sum_list (drop 240 ?hist) / sum_list ?hist * 100" using s by simp
  show ?thesis unfolding analyze_lighting_quality_def Let_def using d o by simp
qed

lemma background_range: "0 \<le> analyze_background img \<and> analyze_background img \<le> 100"
proof -
  have "0 \<le> mean [std a, std b, std c]" for a b c
    by (rule mean_nonneg) (simp add: std_nonneg)
  then show ?thesis unfolding analyze_background_def Let_def by (simp)
qed

lemma color_accuracy_range: "0 \<le> analyze_color_accuracy img pt \<and> analyze_color_accuracy img pt \<le> 100"
  unfolding analyze_color_accuracy_def Let_def by (simp split: option.split)

lemma max0_range: "0 \<le> q \<Longrightarrow> 0 \<le> max 0 (100 - q * 100) \<and> max 0 (100 - q * 100) \<le> (100::real)"
  by simp

lemma size_range_ok: "0 \<le> analyze_size_appropriateness img pt \<and> analyze_size_appropriateness img pt \<le> 100"
proof (cases "map_of product_standards pt")
  case None
  then show ?thesis by (simp add: analyze_size_appropriateness_def)
next
  case (Some st)
  note p = standards_positive[OF Some]
  show ?thesis
  proof (cases "advanced_size_analysis img")
    case (Inl e)
    then show ?thesis using Some by (simp add: analyze_size_appropriateness_def)
  next
    case (Inr sa)
    define a where "a = area sa"
    define mn where "mn = fst (size_range st)"
    define mx where "mx = snd (size_range st)"
    have v: "analyze_size_appropriateness img pt =
       (if mn \<le> a \<and> a \<le> mx then 100
        else if a < mn then max 0 (100 - ((mn - a) / mn * 100))
        else max 0 (100 - ((a - mx) / mx * 100)))"
      unfolding a_def mn_def mx_def using Some Inr by (simp add: analyze_size_appropriateness_def Let_def)
    have pos: "0 < mn" "mn < mx" using p by (simp_all add: mn_def mx_def)
    consider "mn \<le> a \<and> a \<le> mx" | "a < mn" | "\<not> a < mn" "mx < a" by linarith
    then show ?thesis
    proof cases
      case 1
      then show ?thesis using v by simp
    next
      case 2
      then have "0 \<le> (mn - a) / mn" using pos by simp
      have e: "analyze_size_appropriateness img pt = max 0 (100 - (mn - a) / mn * 100)"
        unfolding v using 2 by simp
      from max0_range[OF \<open>0 \<le> (mn - a) / mn\<close>] show ?thesis unfolding e .
    next
      case 3
      then have "0 \<le> (a - mx) / mx" using pos by simp
      have e: "analyze_size_appropriateness img pt = max 0 (100 - (a - mx) / mx * 100)"
        unfolding v using 3 by simp
      from max0_range[OF \<open>0 \<le> (a - mx) / mx\<close>] show ?thesis unfolding e .
    qed
  qed
qed

lemma shape_range: "0 \<le> analyze_shape_regularity img pt \<and> analyze_shape_regularity img pt \<le> 100"
  unfolding analyze_shape_regularity_def Let_def by (simp split: option.split sum.split)

lemma cqa_generic:
  "comprehensive_quality_analysis img pt ''sharpness'' = Some (calculate_sharpness img)"
  "comprehensive_quality_analysis img pt ''brightness'' = Some (calculate_brightness img)"
  "comprehensive_quality_analysis img pt ''contrast'' = Some (calculate_contrast img)"
  "comprehensive_quality_analysis img pt ''saturation'' = Some (calculate_saturation img)"
  "comprehensive_quality_analysis img pt ''noise_level'' = Some (calculate_noise_level img)"
  "comprehensive_quality_analysis img pt ''focus_quality'' = Some (analyze_focus_quality img)"
  "comprehensive_quality_analysis img pt ''lighting_quality'' = Some (analyze_lighting_quality img)"
  "comprehensive_quality_analysis img pt ''background_uniformity'' = Some (analyze_background img)"
  by (simp_all add: comprehensive_quality_analysis_def Let_def)

lemma cqa_product_known:
  assumes "map_of product_standards pt \<noteq> None"
  shows "comprehensive_quality_analysis img pt ''color_accuracy'' = Some (analyze_color_accuracy img pt)"
    "comprehensive_quality_analysis img pt ''size_appropriateness'' = Some (analyze_size_appropriateness img pt)"
    "comprehensive_quality_analysis img pt ''shape_regularity'' = Some (analyze_shape_regularity img pt)"
  using assms by (simp_all add: comprehensive_quality_analysis_def Let_def)

lemma cqa_product_unknown:
  assumes "map_of product_standards pt = None"
  shows "comprehensive_quality_analysis img pt ''color_accuracy'' = None"
    "comprehensive_quality_analysis img pt ''size_appropriateness'' = None"
    "comprehensive_quality_analysis img pt ''shape_regularity'' = None"
  using assms by (simp_all add: comprehensive_quality_analysis_def Let_def)

lemma cqa_dom:
  "dom (comprehensive_quality_analysis img pt) =
     (if map_of product_standards pt \<noteq> None
      then generic_metric_names \<union> product_metric_names else generic_metric_names)"
  by (auto simp: comprehensive_quality_analysis_def Let_def generic_metric_names_def product_metric_names_def)

lemma cqa_known:
  assumes "comprehensive_quality_analysis img pt ''color_accuracy'' \<noteq> None
        \<or> comprehensive_quality_analysis img pt ''size_appropriateness'' \<noteq> None
        \<or> comprehensive_quality_analysis img pt ''shape_regularity'' \<noteq> None"
  shows "map_of product_standards pt \<noteq> None"
proof
  assume "map_of product_standards pt = None"
  from cqa_product_unknown[OF this, of img] assms show False by simp
qed

text \<open>
  C3, as amended: for every decoded image and every product type, each of sharpness,
  lighting_quality, background_uniformity, color_accuracy, size_appropriateness and
  shape_regularity that is present in the metrics map lies in [0,100]; brightness,
  saturation and noise_level are means of 8-bit values and lie in [0,255]; contrast and
  focus_quality are non-negative.
\<close>

theorem metric_ranges:
  "comprehensive_quality_analysis img pt k = Some v \<longrightarrow>
     (k \<in> {''sharpness'', ''lighting_quality'', ''background_uniformity'',
            ''color_accuracy'', ''size_appropriateness'', ''shape_regularity''}
        \<longrightarrow> 0 \<le> v \<and> v \<le> 100)
   \<and> (k \<in> {''brightness'', ''saturation'', ''noise_level''} \<longrightarrow> 0 \<le> v \<and> v \<le> 255)
   \<and> (k \<in> {''contrast'', ''focus_quality''} \<longrightarrow> 0 \<le> v)"
proof (rule impI)
  assume l: "comprehensive_quality_analysis img pt k = Some v"
  have a: "k \<in> {''sharpness'', ''lighting_quality'', ''background_uniformity'',
            ''color_accuracy'', ''size_appropriateness'', ''shape_regularity''}
        \<longrightarrow> 0 \<le> v \<and> v \<le> 100"
  proof (rule impI)
  assume "k \<in> {''sharpness'', ''lighting_quality'', ''background_uniformity'',
            ''color_accuracy'', ''size_appropriateness'', ''shape_regularity''}"
  then have "k = ''sharpness'' \<or> k = ''lighting_quality'' \<or> k = ''background_uniformity''
      \<or> k = ''color_accuracy'' \<or> k = ''size_appropriateness'' \<or> k = ''shape_regularity''"
    by (simp only: insert_iff empty_iff simp_thms)
  then show "0 \<le> v \<and> v \<le> 100"
  proof (elim disjE)
    assume 1: "k = ''sharpness''"
    show ?thesis using 1 l cqa_generic(1)[of img pt] sharpness_range[of img] by simp
  next
    assume 2: "k = ''lighting_quality''"
    show ?thesis using 2 l cqa_generic(7)[of img pt] lighting_range[of img] by simp
  next
    assume 3: "k = ''background_uniformity''"
    show ?thesis using 3 l cqa_generic(8)[of img pt] background_range[of img] by simp
  next
    assume 4: "k = ''color_accuracy''"
    then have "map_of product_standards pt \<noteq> None" using cqa_known[of img pt] l by simp
    then show ?thesis using 4 l cqa_product_known(1)[of pt img] color_accuracy_range[of img pt] by simp
  next
    assume 5: "k = ''size_appropriateness''"
    then have "map_of product_standards pt \<noteq> None" using cqa_known[of img pt] l by simp
    then show ?thesis using 5 l cqa_product_known(2)[of pt img] size_range_ok[of img pt] by simp
  next
    assume 6: "k = ''shape_regularity''"
    then have "map_of product_standards pt \<noteq> None" using cqa_known[of img pt] l by simp
    then show ?thesis using 6 l cqa_product_known(3)[of pt img] shape_range[of img pt] by simp
  qed
  qed
  have b: "k \<in> {''brightness'', ''saturation'', ''noise_level''} \<longrightarrow> 0 \<le> v \<and> v \<le> 255"
  proof (rule impI)
  assume "k \<in> {''brightness'', ''saturation'', ''noise_level''}"
  then have "k = ''brightness'' \<or> k = ''saturation'' \<or> k = ''noise_level''"
    by (simp only: insert_iff empty_iff simp_thms)
  then show "0 \<le> v \<and> v \<le> 255"
  proof (elim disjE)
    assume 1: "k = ''brightness''"
    show ?thesis using 1 l cqa_generic(2)[of img pt] brightness_range[of img] by simp
  next
    assume 2: "k = ''saturation''"
    show ?thesis using 2 l cqa_generic(4)[of img pt] saturation_range[of img] by simp
  next
    assume 3: "k = ''noise_level''"
    show ?thesis using 3 l cqa_generic(5)[of img pt] noise_range[of img] by simp
  qed
  qed
  have c: "k \<in> {''contrast'', ''focus_quality''} \<longrightarrow> 0 \<le> v"
  proof (rule impI)
  assume "k \<in> {''contrast'', ''focus_quality''}"
  then have "k = ''contrast'' \<or> k = ''focus_quality''"
    by (simp only: insert_iff empty_iff simp_thms)
  then show "0 \<le> v"
  proof (elim disjE)
    assume 1: "k = ''contrast''"
    show ?thesis using 1 l cqa_generic(3)[of img pt] contrast_nonneg[of img] by simp
  next
    assume 2: "k = ''focus_quality''"
    show ?thesis using 2 l cqa_generic(6)[of img pt] focus_nonneg[of img] by simp
  qed
  qed
  show "(k \<in> {''sharpness'', ''lighting_quality'', ''background_uniformity'',
            ''color_accuracy'', ''size_appropriateness'', ''shape_regularity''}
        \<longrightarrow> 0 \<le> v \<and> v \<le> 100)
   \<and> (k \<in> {''brightness'', ''saturation'', ''noise_level''} \<longrightarrow> 0 \<le> v \<and> v \<le> 255)
   \<and> (k \<in> {''contrast'', ''focus_quality''} \<longrightarrow> 0 \<le> v)"
    by (rule conjI[OF a conjI[OF b c]])
qed

lemma u8r_numeral [simp]: "u8r 255 = 255" "u8r 93 = 93" "u8r 20 = 20" "u8r 250 = 250"
  by (simp_all add: u8r_def)

lemma white_brightness: "calculate_brightness white_pixel = 255"
  by (simp add: calculate_brightness_def white_pixel_def mean_def)

lemma sample_brightness: "calculate_brightness sample_image = 114"
  by (simp add: calculate_brightness_def sample_image_def mean_def)

lemma sample_size_appropriateness: "analyze_size_appropriateness sample_image ''apple'' = 80"
  by (simp add: analyze_size_appropriateness_def apple_standard sample_size)

lemma apple_known: "map_of product_standards ''apple'' \<noteq> None"
  by (simp add: apple_standard)

lemma mango_unknown: "map_of product_standards ''mango'' = None"
  by (simp add: product_standards_def)

theorem metric_ranges_witness:
  "comprehensive_quality_analysis sample_image ''apple'' ''size_appropriateness'' = Some 80
   \<and> ''size_appropriateness'' \<in> {''sharpness'', ''lighting_quality'', ''background_uniformity'',
            ''color_accuracy'', ''size_appropriateness'', ''shape_regularity''}
   \<and> (0::real) \<le> 80 \<and> (80::real) \<le> 100
   \<and> comprehensive_quality_analysis sample_image ''apple'' ''brightness'' = Some 114
   \<and> ''brightness'' \<in> {''brightness'', ''saturation'', ''noise_level''}
   \<and> (0::real) \<le> 114 \<and> (114::real) \<le> 255"
proof -
  have s: "comprehensive_quality_analysis sample_image ''apple'' ''size_appropriateness'' = Some 80"
    using cqa_product_known(2)[OF apple_known, of sample_image] sample_size_appropriateness by simp
  have b: "comprehensive_quality_analysis sample_image ''apple'' ''brightness'' = Some 114"
    using cqa_generic(2)[of sample_image "''apple''"] sample_brightness by simp
  have 1: "(0::real) \<le> 80 \<and> (80::real) \<le> 100"
    using metric_ranges[of sample_image "''apple''" "''size_appropriateness''" 80] s by simp
  have 2: "(0::real) \<le> 114 \<and> (114::real) \<le> 255"
    using metric_ranges[of sample_image "''apple''" "''brightness''" 114] b by simp
  show ?thesis using s b 1 2 by simp
qed

text \<open>
  C3 as stated fails: the brightness of a white image is 255, on the 0 to 255 scale of the
  grey levels.
\<close>

theorem metric_ranges_counterexample:
  "comprehensive_quality_analysis white_pixel ''apple'' ''brightness'' = Some 255
   \<and> \<not> (255::real) \<le> 100"
  using cqa_generic(2)[of white_pixel "''apple''"] white_brightness by simp

subsection \<open>Defect detectors\<close>

lemma count_spots_fold:
  "fold (\<lambda>contour (significant_spots, total_dark_area).
             (let area = contourArea contour
              in if area > 100 then (significant_spots + 1, total_dark_area + area)
                 else (significant_spots, total_dark_area)))
          cs (n, a)
   = (n + length (filter (\<lambda>c. contourArea c > 100) cs),
      a + sum_list (map contourArea (filter (\<lambda>c. contourArea c > 100) cs)))"
  by (induction cs arbitrary: n a) (simp_all add: Let_def)

lemma count_spots_eq:
  "count_spots cs = (length (filter (\<lambda>c. contourArea c > 100) cs),
                     sum_list (map contourArea (filter (\<lambda>c. contourArea c > 100) cs)))"
  unfolding count_spots_def using count_spots_fold[of cs 0 0] by simp

lemma dark_spots_form:
  "detect_dark_spots img = [] \<or>
   (\<exists>d. detect_dark_spots img = [d] \<and> defect_type d = ''dark_spots''
        \<and> severity d = (if fst (count_spots (dark_contours img)) > 5 then ''high'' else ''medium''))"
  by (simp add: detect_dark_spots_def count_spots_eq)

lemma color_inconsistencies_form:
  "detect_color_inconsistencies img = [] \<or>
   (\<exists>d. detect_color_inconsistencies img = [d] \<and> defect_type d = ''color_inconsistency''
        \<and> severity d = ''medium'')"
  by (simp add: detect_color_inconsistencies_def Let_def)

lemma surface_blemishes_form:
  "detect_surface_blemishes img = [] \<or>
   (\<exists>d. detect_surface_blemishes img = [d] \<and> defect_type d = ''surface_blemishes''
        \<and> severity d = (if blemish_percentage img > 15 then ''high'' else ''medium''))"
  by (simp add: detect_surface_blemishes_def)

lemma texture_issues_form:
  "detect_texture_issues img = [] \<or>
   (\<exists>d. detect_texture_issues img = [d] \<and> defect_type d = ''texture_irregularity''
        \<and> severity d = ''low'')"
  by (simp add: detect_texture_issues_def Let_def)

text \<open>
  C10: for every image and product type the defect detector emits at most one record per
  defect type, so at most four records; a dark_spots record is high when the count of
  significant spots (dark contours of area above 100) exceeds 5 and medium otherwise, a
  color_inconsistency record is medium, a surface_blemishes record is high when the
  percentage of flagged pixels exceeds 15 and medium otherwise, and a texture_irregularity
  record is low.
\<close>

theorem defects_one_per_type:
  "length (detect_defects img pt) \<le> 4
   \<and> distinct (map defect_type (detect_defects img pt))
   \<and> fst (count_spots (dark_contours img))
        = length (filter (\<lambda>c. contourArea c > 100) (dark_contours img))
   \<and> (\<forall>d\<in>set (detect_defects img pt).
          (defect_type d = ''dark_spots''
             \<and> severity d = (if fst (count_spots (dark_contours img)) > 5 then ''high'' else ''medium''))
        \<or> (defect_type d = ''color_inconsistency'' \<and> severity d = ''medium'')
        \<or> (defect_type d = ''surface_blemishes''
             \<and> severity d = (if blemish_percentage img > 15 then ''high'' else ''medium''))
        \<or> (defect_type d = ''texture_irregularity'' \<and> severity d = ''low''))"
proof -
  obtain xs1 where 1: "detect_dark_spots img = xs1"
    "xs1 = [] \<or> (\<exists>d. xs1 = [d] \<and> defect_type d = ''dark_spots''
        \<and> severity d = (if fst (count_spots (dark_contours img)) > 5 then ''high'' else ''medium''))"
    using dark_spots_form[of img] by blast
  obtain xs2 where 2: "detect_color_inconsistencies img = xs2"
    "xs2 = [] \<or> (\<exists>d. xs2 = [d] \<and> defect_type d = ''color_inconsistency'' \<and> severity d = ''medium'')"
    using color_inconsistencies_form[of img] by blast
  obtain xs3 where 3: "detect_surface_blemishes img = xs3"
    "xs3 = [] \<or> (\<exists>d. xs3 = [d] \<and> defect_type d = ''surface_blemishes''
        \<and> severity d = (if blemish_percentage img > 15 then ''high'' else ''medium''))"
    using surface_blemishes_form[of img] by blast
  obtain xs4 where 4: "detect_texture_issues img = xs4"
    "xs4 = [] \<or> (\<exists>d. xs4 = [d] \<and> defect_type d = ''texture_irregularity'' \<and> severity d = ''low'')"
    using texture_issues_form[of img] by blast
  have e: "detect_defects img pt = xs1 @ xs2 @ xs3 @ xs4"
    by (simp add: detect_defects_def 1 2 3 4)
  have l: "length xs1 \<le> 1" "length xs2 \<le> 1" "length xs3 \<le> 1" "length xs4 \<le> 1"
    using 1(2) 2(2) 3(2) 4(2) by auto
  have len: "length (detect_defects img pt) \<le> 4" unfolding e using l by simp
  have t1: "\<forall>d\<in>set xs1. defect_type d = ''dark_spots''
      \<and> severity d = (if fst (count_spots (dark_contours img)) > 5 then ''high'' else ''medium'')"
    using 1(2) by auto
  have t2: "\<forall>d\<in>set xs2. defect_type d = ''color_inconsistency'' \<and> severity d = ''medium''"
    using 2(2) by auto
  have t3: "\<forall>d\<in>set xs3. defect_type d = ''surface_blemishes''
      \<and> severity d = (if blemish_percentage img > 15 then ''high'' else ''medium'')"
    using 3(2) by auto
  have t4: "\<forall>d\<in>set xs4. defect_type d = ''texture_irregularity'' \<and> severity d = ''low''"
    using 4(2) by auto
  have d1: "distinct (map defect_type xs1)" "distinct (map defect_type xs2)"
    "distinct (map defect_type xs3)" "distinct (map defect_type xs4)"
    using 1(2) 2(2) 3(2) 4(2) by auto
  have dis: "distinct (map defect_type (detect_defects img pt))"
    unfolding e using d1 t1 t2 t3 t4 by auto
  have rule: "\<forall>d\<in>set (detect_defects img pt).
          (defect_type d = ''dark_spots''
             \<and> severity d = (if fst (count_spots (dark_contours img)) > 5 then ''high'' else ''medium''))
        \<or> (defect_type d = ''color_inconsistency'' \<and> severity d = ''medium'')
        \<or> (defect_type d = ''surface_blemishes''
             \<and> severity d = (if blemish_percentage img > 15 then ''high'' else ''medium''))
        \<or> (defect_type d = ''texture_irregularity'' \<and> severity d = ''low'')"
    unfolding e using t1 t2 t3 t4 by auto
  have cnt: "fst (count_spots (dark_contours img))
        = length (filter (\<lambda>c. contourArea c > 100) (dark_contours img))"
    by (simp add: count_spots_eq)
  show ?thesis using len dis cnt rule by simp
qed

lemma sample_dark: "detect_dark_spots sample_image =
   [\<lparr>defect_type = ''dark_spots'', severity = ''medium'',
     details = [(''count'', 2), (''total_area'', 550)]\<rparr>]"
  by (simp add: detect_dark_spots_def count_spots_eq sample_image_def sample_contour_def)

lemma sample_hue_std: "std (map (u8r \<circ> chan0) (hsv sample_image)) = 2"
proof -
  have "variance (map (u8r \<circ> chan0) (hsv sample_image)) = 4"
    by (simp add: variance_def mean_def sample_image_def chan0_def u8r_def)
  then show ?thesis by (simp add: std_def)
qed

lemma sample_color: "detect_color_inconsistencies sample_image = []"
  by (simp add: detect_color_inconsistencies_def sample_hue_std)

lemma sample_blemish_pct: "blemish_percentage sample_image = 50"
  by (simp add: blemish_percentage_def sample_image_def chan1_def chan2_def)

lemma sample_blemish: "detect_surface_blemishes sample_image =
   [\<lparr>defect_type = ''surface_blemishes'', severity = ''high'', details = [(''percentage'', 50)]\<rparr>]"
  by (simp add: detect_surface_blemishes_def sample_blemish_pct)

lemma sample_texture: "detect_texture_issues sample_image = []"
  by (simp add: detect_texture_issues_def sample_image_def mean_def u8r_def)

lemma sample_defects: "detect_defects sample_image ''apple'' =
   [\<lparr>defect_type = ''dark_spots'', severity = ''medium'',
     details = [(''count'', 2), (''total_area'', 550)]\<rparr>,
    \<lparr>defect_type = ''surface_blemishes'', severity = ''high'', details = [(''percentage'', 50)]\<rparr>]"
  by (simp add: detect_defects_def sample_dark sample_color sample_blemish sample_texture)

theorem defects_one_per_type_witness:
  "detect_defects sample_image ''apple'' =
     [\<lparr>defect_type = ''dark_spots'', severity = ''medium'',
       details = [(''count'', 2), (''total_area'', 550)]\<rparr>,
      \<lparr>defect_type = ''surface_blemishes'', severity = ''high'', details = [(''percentage'', 50)]\<rparr>]
   \<and> length (detect_defects sample_image ''apple'') \<le> 4
   \<and> fst (count_spots (dark_contours sample_image)) = 2
   \<and> blemish_percentage sample_image = 50
   \<and> severity \<lparr>defect_type = ''dark_spots'', severity = ''medium'',
         details = [(''count'', 2), (''total_area'', 550)]\<rparr>
        = (if fst (count_spots (dark_contours sample_image)) > 5 then ''high'' else ''medium'')
   \<and> severity \<lparr>defect_type = ''surface_blemishes'', severity = ''high'',
         details = [(''percentage'', 50)]\<rparr>
        = (if blemish_percentage sample_image > 15 then ''high'' else ''medium'')"
proof -
  let ?d1 = "\<lparr>defect_type = ''dark_spots'', severity = ''medium'',
       details = [(''count'', 2), (''total_area'', 550)]\<rparr>"
  let ?d2 = "\<lparr>defect_type = ''surface_blemishes'', severity = ''high'',
       details = [(''percentage'', 50::real)]\<rparr>"
  note t = defects_one_per_type[of sample_image "''apple''"]
  have len: "length (detect_defects sample_image ''apple'') \<le> 4" using t by simp
  have cnt: "fst (count_spots (dark_contours sample_image)) = 2"
    using t by (simp add: sample_image_def sample_contour_def)
  have m1: "?d1 \<in> set (detect_defects sample_image ''apple'')" by (simp add: sample_defects)
  have m2: "?d2 \<in> set (detect_defects sample_image ''apple'')" by (simp add: sample_defects)
  have s1: "severity ?d1 = (if fst (count_spots (dark_contours sample_image)) > 5 then ''high'' else ''medium'')"
    using t m1 by fastforce
  have s2: "severity ?d2 = (if blemish_percentage sample_image > 15 then ''high'' else ''medium'')"
    using t m2 by fastforce
  show ?thesis using sample_defects len cnt sample_blemish_pct s1 s2 by blast
qed

subsection \<open>The analysis call\<close>

lemma analyze_image_imread_raises:
  "imread w path = Inl e \<Longrightarrow>
   analyze_image self w path pt = Inr [''error'' \<mapsto> FStr (exc_msg e)]"
  by (simp add: analyze_image_def analyze_image_body_def)

lemma analyze_image_not_loaded:
  "imread w path = Inr None \<Longrightarrow>
   analyze_image self w path pt = Inr [''error'' \<mapsto> FStr ''Could not load image'']"
  by (simp add: analyze_image_def analyze_image_body_def)

lemma run_stage_ok: "cv_error w s = None \<Longrightarrow> run_stage w s v = Inr v"
  by (simp add: run_stage_def)

lemma run_stage_fail: "cv_error w s = Some e \<Longrightarrow> run_stage w s v = Inl e"
  by (simp add: run_stage_def)

lemma stage_cases: "run_stage w s v = Inr v \<or> (\<exists>e. run_stage w s v = Inl e)"
  by (cases "cv_error w s") (simp_all add: run_stage_def)


lemma analyze_image_ok:
  assumes "imread w path = Inr (Some img)" "\<forall>s. cv_error w s = None"
  shows "analyze_image self w path pt =
     Inr [''overall_score'' \<mapsto>
            FNum (calculate_overall_score (comprehensive_quality_analysis img pt)
                    (detect_objects self img) pt),
          ''grade'' \<mapsto>
            FStr (get_quality_grade (quality_grades_setting w)
                    (calculate_overall_score (comprehensive_quality_analysis img pt)
                       (detect_objects self img) pt)),
          ''image_info'' \<mapsto> FInfo (get_image_info w path),
          ''objects_detected'' \<mapsto> FObjects (detect_objects self img),
          ''quality_metrics'' \<mapsto> FMetrics (comprehensive_quality_analysis img pt),
          ''defects'' \<mapsto> FDefects (detect_defects img pt),
          ''color_analysis'' \<mapsto> FColor (advanced_color_analysis img pt),
          ''size_analysis'' \<mapsto> FSize (advanced_size_analysis img),
          ''freshness_indicators'' \<mapsto> FFresh (analyze_freshness img pt),
          ''recommendations'' \<mapsto>
            FRecs (generate_recommendations (comprehensive_quality_analysis img pt) pt),
          ''timestamp'' \<mapsto> FStr (now_isoformat w)]"
  using assms by (simp add: analyze_image_def analyze_image_body_def run_stage_def Let_def)

lemma analyze_image_ok_dom:
  assumes "imread w path = Inr (Some img)" "\<forall>s. cv_error w s = None"
  shows "\<exists>d. analyze_image self w path pt = Inr d \<and> dom d = result_keys
            \<and> d ''quality_metrics'' = Some (FMetrics (comprehensive_quality_analysis img pt))
            \<and> d ''error'' = None"
  unfolding analyze_image_ok[OF assms] result_keys_def by simp

lemma error_not_result_key: "''error'' \<notin> result_keys"
  by (simp add: result_keys_def)








text \<open>
  C1, as amended: for an input that cannot be decoded as an image the analysis call
  raises nothing: it returns the dictionary whose only entry is error, with the message
  'Could not load image' when the decoder returns no image and the exception's message
  when the decoder raises. No partial result is produced.
\<close>

theorem undecodable_gives_error_dict:
  "(imread w path = Inr None \<longrightarrow>
      analyze_image self w path pt = Inr [''error'' \<mapsto> FStr ''Could not load image''])
   \<and> (\<forall>e. imread w path = Inl e \<longrightarrow>
      analyze_image self w path pt = Inr [''error'' \<mapsto> FStr (exc_msg e)])"
  using analyze_image_not_loaded[of w path self pt] analyze_image_imread_raises[of w path _ self pt]
  by blast

theorem undecodable_gives_error_dict_witness:
  "imread unreadable_world ''notes.jpg'' = Inr None
   \<and> analyze_image placeholder_analyzer unreadable_world ''notes.jpg'' ''tomato''
       = Inr [''error'' \<mapsto> FStr ''Could not load image'']"
proof -
  have h: "imread unreadable_world ''notes.jpg'' = Inr None" by (simp add: unreadable_world_def)
  then show ?thesis
    using undecodable_gives_error_dict[of unreadable_world "''notes.jpg''" placeholder_analyzer "''tomato''"]
    by blast
qed

text \<open>
  C1 as stated fails: for a file that cannot be decoded the call returns a dictionary; it
  does not raise.
\<close>

theorem undecodable_gives_error_dict_counterexample:
  "imread unreadable_world ''empty.jpg'' = Inr None
   \<and> \<not> isl (analyze_image placeholder_analyzer unreadable_world ''empty.jpg'' ''apple'')
   \<and> analyze_image placeholder_analyzer unreadable_world ''empty.jpg'' ''apple''
       = Inr [''error'' \<mapsto> FStr ''Could not load image'']"
  by (simp add: analyze_image_def analyze_image_body_def unreadable_world_def)

lemma generic_unknown: "map_of product_standards ''generic'' = None"
  by (simp add: product_standards_def)

text \<open>
  C8, as amended: for a product type without a standard the call does not raise, and the
  metrics map holds the eight generic metrics only: color_accuracy, size_appropriateness
  and shape_regularity are absent from it. The three analysers return the generic value
  75 for such a type, but the analysis does not call them.
\<close>

theorem unknown_product_type:
  "map_of product_standards pt = None \<longrightarrow>
     comprehensive_quality_analysis img pt ''color_accuracy'' = None
   \<and> comprehensive_quality_analysis img pt ''size_appropriateness'' = None
   \<and> comprehensive_quality_analysis img pt ''shape_regularity'' = None
   \<and> dom (comprehensive_quality_analysis img pt) = generic_metric_names
   \<and> analyze_color_accuracy img pt = 75
   \<and> analyze_size_appropriateness img pt = 75
   \<and> analyze_shape_regularity img pt = 75
   \<and> (\<exists>d. analyze_image self w path pt = Inr d)
   \<and> (imread w path = Inr (Some img) \<and> (\<forall>s. cv_error w s = None) \<longrightarrow>
        (\<exists>d. analyze_image self w path pt = Inr d \<and> dom d = result_keys
           \<and> d ''quality_metrics'' = Some (FMetrics (comprehensive_quality_analysis img pt))))"
proof (rule impI)
  assume u: "map_of product_standards pt = None"
  have 1: "dom (comprehensive_quality_analysis img pt) = generic_metric_names"
    using u by (simp add: cqa_dom)
  have 2: "analyze_color_accuracy img pt = 75" using u by (simp add: analyze_color_accuracy_def)
  have 3: "analyze_size_appropriateness img pt = 75"
    using u by (simp add: analyze_size_appropriateness_def)
  have 4: "analyze_shape_regularity img pt = 75"
    using u by (simp add: analyze_shape_regularity_def)
  have 5: "\<exists>d. analyze_image self w path pt = Inr d"
    by (simp add: analyze_image_def split: sum.split)
  have 6: "\<exists>d. analyze_image self w path pt = Inr d \<and> dom d = result_keys
           \<and> d ''quality_metrics'' = Some (FMetrics (comprehensive_quality_analysis img pt))"
    if "imread w path = Inr (Some img) \<and> (\<forall>s. cv_error w s = None)"
    using analyze_image_ok_dom[of w path img self pt] that by blast
  show "comprehensive_quality_analysis img pt ''color_accuracy'' = None
   \<and> comprehensive_quality_analysis img pt ''size_appropriateness'' = None
   \<and> comprehensive_quality_analysis img pt ''shape_regularity'' = None
   \<and> dom (comprehensive_quality_analysis img pt) = generic_metric_names
   \<and> analyze_color_accuracy img pt = 75
   \<and> analyze_size_appropriateness img pt = 75
   \<and> analyze_shape_regularity img pt = 75
   \<and> (\<exists>d. analyze_image self w path pt = Inr d)
   \<and> (imread w path = Inr (Some img) \<and> (\<forall>s. cv_error w s = None) \<longrightarrow>
        (\<exists>d. analyze_image self w path pt = Inr d \<and> dom d = result_keys
           \<and> d ''quality_metrics'' = Some (FMetrics (comprehensive_quality_analysis img pt))))"
    using cqa_product_unknown[OF u, of img] 1 2 3 4 5 6 by blast
qed

theorem unknown_product_type_witness:
  "map_of product_standards ''generic'' = None
   \<and> imread sample_world ''apple.jpg'' = Inr (Some sample_image)
   \<and> comprehensive_quality_analysis sample_image ''generic'' ''color_accuracy'' = None
   \<and> dom (comprehensive_quality_analysis sample_image ''generic'') = generic_metric_names
   \<and> analyze_color_accuracy sample_image ''generic'' = 75
   \<and> (\<exists>d. analyze_image placeholder_analyzer sample_world ''apple.jpg'' ''generic'' = Inr d
          \<and> dom d = result_keys
          \<and> d ''quality_metrics''
              = Some (FMetrics (comprehensive_quality_analysis sample_image ''generic'')))"
proof -
  have i: "imread sample_world ''apple.jpg'' = Inr (Some sample_image) \<and> (\<forall>s. cv_error sample_world s = None)"
    by (simp add: sample_world_def)
  show ?thesis
    using unknown_product_type[of "''generic''" sample_image placeholder_analyzer sample_world "''apple.jpg''"]
      generic_unknown i
    by blast
qed

text \<open>
  C8 as stated fails: for the default product type generic the three product metrics are
  absent from the metrics map, not present with the value 75.
\<close>

theorem unknown_product_type_counterexample:
  "map_of product_standards ''generic'' = None
   \<and> comprehensive_quality_analysis white_pixel ''generic'' ''color_accuracy'' \<noteq> Some 75
   \<and> comprehensive_quality_analysis white_pixel ''generic'' ''color_accuracy'' = None
   \<and> comprehensive_quality_analysis white_pixel ''generic'' ''size_appropriateness'' = None
   \<and> comprehensive_quality_analysis white_pixel ''generic'' ''shape_regularity'' = None"
  using cqa_product_unknown[OF generic_unknown, of white_pixel] generic_unknown by simp

end
